theory Spec2Isabelle
  imports Main "HOL-Library.Multiset"
begin

section \<open>Python values\<close>

text \<open>
  The importer works on dynamically typed dictionaries, and several of its checks are
  \<^verbatim>\<open>isinstance\<close> tests, so field values are modelled by a datatype of Python values.
  A float is NaN, an infinity (the flag is the sign) or a finite value, kept as mantissa
  and binary exponent; the importer never computes with amounts, it only classifies them.
  A dictionary is an association list with string keys, in insertion order.
  A Python string is modelled by a \<^typ>\<open>string\<close> whose characters are its code points:
  the model covers the strings of code points below 256, on which \<^verbatim>\<open>str.lower\<close> maps
  character by character. The whitespace and case tables below are those of Python for
  all of these code points.
\<close>

datatype pyfloat = FNaN | FInf bool | FFinite int int

datatype pyval =
    PNone
  | PBool bool
  | PInt int
  | PFloat pyfloat
  | PStr string
  | PList "pyval list"
  | PTuple "pyval list"
  | PDict "(string \<times> pyval) list"

type_synonym pydict = "(string \<times> pyval) list"

text \<open>\<^verbatim>\<open>d.get(k)\<close>: the value stored under \<open>k\<close>, or \<^verbatim>\<open>None\<close>.\<close>

definition dict_get :: "pydict \<Rightarrow> string \<Rightarrow> pyval" where
  "dict_get d k = (case map_of d k of None \<Rightarrow> PNone | Some v \<Rightarrow> v)"

text \<open>\<^verbatim>\<open>k in d\<close>.\<close>

definition dict_has :: "pydict \<Rightarrow> string \<Rightarrow> bool" where
  "dict_has d k = (map_of d k \<noteq> None)"

text \<open>\<^verbatim>\<open>d[k] = v\<close>: replaces the value of an existing key in place, appends a new key.\<close>

fun dict_set :: "pydict \<Rightarrow> string \<Rightarrow> pyval \<Rightarrow> pydict" where
  "dict_set [] k v = [(k, v)]"
| "dict_set ((k', v') # d) k v = (if k' = k then (k, v) # d else (k', v') # dict_set d k v)"

text \<open>\<^verbatim>\<open>isinstance(x, str) and x\<close>: a non-empty string.\<close>

fun nonempty_str :: "pyval \<Rightarrow> bool" where
  "nonempty_str (PStr s) = (s \<noteq> [])"
| "nonempty_str _ = False"

fun is_str :: "pyval \<Rightarrow> bool" where
  "is_str (PStr s) = True"
| "is_str _ = False"

fun str_of :: "pyval \<Rightarrow> string" where
  "str_of (PStr s) = s"
| "str_of _ = []"

section \<open>Normalizer\<close>

text \<open>
  \<^verbatim>\<open>def _norm(s): return " ".join(s.strip().lower().split())\<close>

  \<open>py_isspace\<close> is the whitespace test of \<^verbatim>\<open>strip\<close> and \<^verbatim>\<open>split\<close> on code points
  below 256: tab, line feed, vertical tab, form feed, carriage return, the four separators
  0x1C to 0x1F, the space, the next-line control 0x85 and the no-break space 0xA0.
  \<open>py_lower_char\<close> is \<^verbatim>\<open>str.lower\<close> on one such code point: the capitals A to Z and
  the capitals 0xC0 to 0xDE, without the multiplication sign 0xD7, move up by 32; every
  other code point below 256 is left as it is.
\<close>

definition py_isspace :: "char \<Rightarrow> bool" where
  "py_isspace c = (of_char c \<in> {9, 10, 11, 12, 13, 28, 29, 30, 31, 32, 133, 160 :: nat})"

definition py_lower_char :: "char \<Rightarrow> char" where
  "py_lower_char c =
     (let n = (of_char c :: nat)
      in if (65 \<le> n \<and> n \<le> 90) \<or> (192 \<le> n \<and> n \<le> 222 \<and> n \<noteq> 215)
         then char_of (n + 32) else c)"

definition py_lower :: "string \<Rightarrow> string" where
  "py_lower s = map py_lower_char s"

definition py_strip :: "string \<Rightarrow> string" where
  "py_strip s = rev (dropWhile py_isspace (rev (dropWhile py_isspace s)))"

text \<open>
  \<^verbatim>\<open>s.split()\<close> with no separator: skip a run of whitespace, take the characters up to
  the next whitespace as a word, repeat; no empty word is produced.
\<close>

function py_split :: "string \<Rightarrow> string list" where
  "py_split s =
     (let t = dropWhile py_isspace s
      in if t = [] then []
         else takeWhile (\<lambda>c. \<not> py_isspace c) t # py_split (dropWhile (\<lambda>c. \<not> py_isspace c) t))"
  by pat_completeness auto
termination
proof (relation "measure length")
  show "wf (measure length)" by simp
next
  fix s t :: string
  assume t: "t = dropWhile py_isspace s" and ne: "t \<noteq> []"
  have "\<not> py_isspace (hd t)"
    using t ne hd_dropWhile by metis
  then have "length (dropWhile (\<lambda>c. \<not> py_isspace c) t) < length t"
    using ne by (cases t) (auto simp: less_Suc_eq_le length_dropWhile_le)
  also have "length t \<le> length s"
    using t by (simp add: length_dropWhile_le)
  finally show "(dropWhile (\<lambda>c. \<not> py_isspace c) t, s) \<in> measure length"
    by simp
qed

declare py_split.simps [simp del]

fun py_join :: "string \<Rightarrow> string list \<Rightarrow> string" where
  "py_join sep [] = []"
| "py_join sep [w] = w"
| "py_join sep (w # v # ws) = w @ sep @ py_join sep (v # ws)"

definition norm :: "string \<Rightarrow> string" where
  "norm s = py_join '' '' (py_split (py_lower (py_strip s)))"


section \<open>Configuration, environment and project state\<close>

text \<open>
  The fields of \<^verbatim>\<open>Config\<close> that the relinking and validation code reads, and the
  instance \<^verbatim>\<open>CFG = Config()\<close> with the defaults of the source. Every function below
  takes the configuration as an argument, so that both settings of the synthetic-flow
  switch can be studied.
\<close>

record config =
  excel_background_db_name :: string
  overwrite_metal_databases :: bool
  custom_biosphere_db_name :: string
  allow_create_missing_biosphere_flows :: bool

definition CFG :: config where
  "CFG = \<lparr> excel_background_db_name = ''ecoinvent 3.10 cutoff'',
           overwrite_metal_databases = True,
           custom_biosphere_db_name = ''biosphere_custom'',
           allow_create_missing_biosphere_flows = False \<rparr>"

text \<open>
  Two library functions are parameters of the model: \<^verbatim>\<open>md5_hexdigest\<close> stands for
  \<^verbatim>\<open>hashlib.md5(k.encode("utf-8")).hexdigest()\<close> as a function of the string \<open>k\<close>,
  and \<open>py_repr\<close> for Python's \<^verbatim>\<open>repr\<close>. For every value that is not a string, \<^verbatim>\<open>str(x)\<close> is
  \<^verbatim>\<open>repr(x)\<close>; the f-string in \<^verbatim>\<open>_custom_flow_code\<close> formats the category tuple
  this way.
\<close>

record pyenv =
  md5_hexdigest :: "string \<Rightarrow> string"
  py_repr :: "pyval \<Rightarrow> string"

definition py_str :: "pyenv \<Rightarrow> pyval \<Rightarrow> string" where
  "py_str env x = (case x of PStr s \<Rightarrow> s | _ \<Rightarrow> py_repr env x)"

text \<open>
  The Brightway project: \<open>dbs\<close> maps the name of every registered database
  (\<^verbatim>\<open>name in bd.databases\<close>) to its content, a dictionary from \<open>(database, code)\<close>
  to the stored dataset, in insertion order. \<open>committed\<close> logs the batches handed to
  \<^verbatim>\<open>importer.write_database()\<close>.
  An activity of the importer payload is a dictionary whose \<^verbatim>\<open>"exchanges"\<close> entry is a
  list; the record keeps that list apart from the other keys. An exchange is any value:
  the code tests \<^verbatim>\<open>isinstance(exc, dict)\<close> itself.
\<close>

type_synonym key = "string \<times> string"
type_synonym dbdata = "(key \<times> pydict) list"

record activity =
  attrs :: pydict
  exchanges :: "pyval list"

record world =
  dbs :: "string \<rightharpoonup> dbdata"
  committed :: "activity list list"

text \<open>
  Iterating \<^verbatim>\<open>bd.Database(db_name)\<close>: the stored datasets, in order. The code iterates
  registered databases only (the biosphere is set up before any file is processed, and a
  technosphere index is built after the test \<^verbatim>\<open>db_name in bd.databases\<close>); a name that
  is not registered reads as an empty database.
\<close>

definition db_activities :: "world \<Rightarrow> string \<Rightarrow> pydict list" where
  "db_activities w db_name = (case dbs w db_name of None \<Rightarrow> [] | Some d \<Rightarrow> map snd d)"

text \<open>A \<open>(database, code)\<close> pair as the Python tuple stored under \<^verbatim>\<open>"input"\<close>.\<close>

definition key_val :: "key \<Rightarrow> pyval" where
  "key_val k = PTuple [PStr (fst k), PStr (snd k)]"

text \<open>
  A loop over a list that rewrites each element and threads a state, as the nested
  \<^verbatim>\<open>for act ... for exc ...\<close> loops do when they mutate exchanges in place.
\<close>

fun map_accum :: "('s \<Rightarrow> 'a \<Rightarrow> 'b \<times> 's) \<Rightarrow> 's \<Rightarrow> 'a list \<Rightarrow> 'b list \<times> 's" where
  "map_accum f s [] = ([], s)"
| "map_accum f s (x # xs) =
     (case f s x of (y, s1) \<Rightarrow> (case map_accum f s1 xs of (ys, s2) \<Rightarrow> (y # ys, s2)))"

datatype error =
    NonDictExchange "pyval \<times> pyval" pyval
  | MissingKeys "string list" "pyval \<times> pyval" pyval
  | UnhashableType "pyval \<times> pyval" pyval
  | InvalidExchangeType "pyval \<times> pyval" pyval
  | NonNumericAmount "pyval \<times> pyval" pyval
  | InvalidInputFormat "pyval \<times> pyval" pyval
  | ProductionMismatch "pyval \<times> pyval" pyval pyval
  | UnresolvedBiosphere pyval string pyval pyval
  | StatisticsAttributeError pyval

section \<open>Synthetic flow factory\<close>

text \<open>
  \<^verbatim>\<open>_ensure_custom_biosphere_db\<close>, \<^verbatim>\<open>_custom_flow_code\<close> and
  \<^verbatim>\<open>_get_or_create_custom_biosphere_flow\<close>. \<^verbatim>\<open>db.load()\<close> reads the content of the
  database, \<^verbatim>\<open>db.write(existing)\<close> replaces it.
\<close>

definition ensure_custom_biosphere_db :: "string \<Rightarrow> world \<Rightarrow> world" where
  "ensure_custom_biosphere_db db_name w =
     (if db_name \<in> dom (dbs w) then w else w\<lparr>dbs := (dbs w)(db_name \<mapsto> [])\<rparr>)"

definition custom_flow_code :: "pyenv \<Rightarrow> string \<Rightarrow> string list \<Rightarrow> string \<Rightarrow> string" where
  "custom_flow_code env name categories unit =
     md5_hexdigest env (name @ ''|'' @ py_repr env (PTuple (map PStr categories)) @ ''|'' @ unit)"

definition db_load :: "world \<Rightarrow> string \<Rightarrow> dbdata" where
  "db_load w db_name = (case dbs w db_name of None \<Rightarrow> [] | Some d \<Rightarrow> d)"

definition db_write :: "string \<Rightarrow> dbdata \<Rightarrow> world \<Rightarrow> world" where
  "db_write db_name d w = w\<lparr>dbs := (dbs w)(db_name \<mapsto> d)\<rparr>"

definition get_or_create_custom_biosphere_flow ::
  "pyenv \<Rightarrow> string \<Rightarrow> string \<Rightarrow> string list \<Rightarrow> string \<Rightarrow> world \<Rightarrow> key \<times> world" where
  "get_or_create_custom_biosphere_flow env db_name flow_name categories unit w =
     (let w1 = ensure_custom_biosphere_db db_name w;
          code = custom_flow_code env flow_name categories unit;
          k = (db_name, code);
          existing = db_load w1 db_name
      in if map_of existing k \<noteq> None then (k, w1)
         else (k, db_write db_name
                    (existing @ [(k, [(''name'', PStr flow_name),
                                      (''categories'', PTuple (map PStr categories)),
                                      (''unit'', PStr unit),
                                      (''type'', PStr ''emission''),
                                      (''code'', PStr code)])]) w1))"

section \<open>Exchange input utilities\<close>

text \<open>\<^verbatim>\<open>inp.split("::", 1)\<close> when \<^verbatim>\<open>"::" in inp\<close>: the parts around the first \<open>::\<close>.\<close>

fun split_colons :: "string \<Rightarrow> (string \<times> string) option" where
  "split_colons (a # b # cs) =
     (if a = CHR '':'' \<and> b = CHR '':'' then Some ([], cs)
      else (case split_colons (b # cs) of None \<Rightarrow> None | Some (p, q) \<Rightarrow> Some (a # p, q)))"
| "split_colons _ = None"

definition normalize_exchange :: "pyval \<Rightarrow> pyval \<times> nat" where
  "normalize_exchange exc =
     (case exc of
        PDict d \<Rightarrow>
          (case dict_get d ''input'' of
             PStr inp \<Rightarrow>
               (case split_colons inp of
                  Some (db_part, code_part) \<Rightarrow>
                    (PDict (dict_set d ''input'' (PTuple [PStr db_part, PStr code_part])), 1)
                | None \<Rightarrow> (exc, 0))
           | _ \<Rightarrow> (exc, 0))
      | _ \<Rightarrow> (exc, 0))"

definition normalize_exchange_inputs_to_tuples :: "activity list \<Rightarrow> activity list \<times> nat" where
  "normalize_exchange_inputs_to_tuples acts =
     map_accum (\<lambda>changed act.
        case map_accum (\<lambda>c exc. case normalize_exchange exc of (e, n) \<Rightarrow> (e, c + n))
               changed (exchanges act)
        of (es, c) \<Rightarrow> (act\<lparr>exchanges := es\<rparr>, c)) 0 acts"

definition rewrite_exchange :: "string \<Rightarrow> string \<Rightarrow> pyval \<Rightarrow> pyval \<times> nat" where
  "rewrite_exchange old_bg new_bg exc =
     (case exc of
        PDict d \<Rightarrow>
          (let (d1, n1) = (if dict_get d ''database'' = PStr old_bg
                           then (dict_set d ''database'' (PStr new_bg), 1) else (d, 0 :: nat));
               (d2, n2) = (case dict_get d1 ''input'' of
                             PTuple [a, b] \<Rightarrow>
                               if a = PStr old_bg
                               then (dict_set d1 ''input'' (PTuple [PStr new_bg, b]), n1 + 1)
                               else (d1, n1)
                           | _ \<Rightarrow> (d1, n1))
           in (PDict d2, n2))
      | _ \<Rightarrow> (exc, 0))"

definition rewrite_background_db_label ::
  "activity list \<Rightarrow> string \<Rightarrow> string \<Rightarrow> activity list \<times> nat" where
  "rewrite_background_db_label acts old_bg new_bg =
     (if old_bg = new_bg then (acts, 0)
      else map_accum (\<lambda>changed act.
             case map_accum (\<lambda>c exc. case rewrite_exchange old_bg new_bg exc of (e, n) \<Rightarrow> (e, c + n))
                    changed (exchanges act)
             of (es, c) \<Rightarrow> (act\<lparr>exchanges := es\<rparr>, c)) 0 acts)"

section \<open>Technosphere relinking\<close>

type_synonym ei_key = "string \<times> string \<times> string"
type_synonym ei_index = "ei_key \<rightharpoonup> key"

text \<open>\<^verbatim>\<open>_build_ecoinvent_index\<close>: later activities overwrite earlier ones with the same key.\<close>

definition build_ecoinvent_index :: "world \<Rightarrow> string \<Rightarrow> ei_index" where
  "build_ecoinvent_index w db_name =
     fold (\<lambda>act idx.
        let name = dict_get act ''name'';
            ref = dict_get act ''reference product'';
            loc = dict_get act ''location'';
            code = dict_get act ''code''
        in if \<forall>x\<in>set [name, ref, loc, code]. nonempty_str x
           then idx((str_of name, str_of ref, str_of loc) \<mapsto> (db_name, str_of code))
           else idx)
       (db_activities w db_name) Map.empty"

text \<open>
  The body of the inner loop of \<^verbatim>\<open>_fill_missing_technosphere_inputs\<close> for one exchange.
  The state is the local cache \<^verbatim>\<open>indices\<close> and the counter \<^verbatim>\<open>fixed\<close>; every
  \<^verbatim>\<open>continue\<close> leaves exchange and state as they are.
\<close>

definition tech_exchange ::
  "world \<Rightarrow> (string \<rightharpoonup> ei_index) \<times> nat \<Rightarrow> pyval \<Rightarrow> pyval \<times> ((string \<rightharpoonup> ei_index) \<times> nat)" where
  "tech_exchange w st exc =
     (case exc of
        PDict d \<Rightarrow>
          if dict_get d ''type'' \<noteq> PStr ''technosphere'' then (exc, st)
          else if dict_has d ''input'' then (exc, st)
          else
            let db_name = dict_get d ''database'';
                name = dict_get d ''name'';
                ref = dict_get d ''reference product'';
                loc = dict_get d ''location''
            in if \<not> (\<forall>x\<in>set [db_name, name, ref, loc]. nonempty_str x) then (exc, st)
               else if str_of db_name \<notin> dom (dbs w) then (exc, st)
               else
                 let indices = (if str_of db_name \<notin> dom (fst st)
                                then (fst st)(str_of db_name \<mapsto> build_ecoinvent_index w (str_of db_name))
                                else fst st)
                 in (case indices (str_of db_name) of
                       None \<Rightarrow> (exc, (indices, snd st))
                     | Some idx \<Rightarrow>
                         (case idx (str_of name, str_of ref, str_of loc) of
                            Some hit \<Rightarrow> (PDict (dict_set d ''input'' (key_val hit)), (indices, snd st + 1))
                          | None \<Rightarrow> (exc, (indices, snd st))))
      | _ \<Rightarrow> (exc, st))"

definition tech_activity ::
  "world \<Rightarrow> (string \<rightharpoonup> ei_index) \<times> nat \<Rightarrow> activity \<Rightarrow> activity \<times> ((string \<rightharpoonup> ei_index) \<times> nat)" where
  "tech_activity w st act =
     (case map_accum (tech_exchange w) st (exchanges act) of (es, st1) \<Rightarrow> (act\<lparr>exchanges := es\<rparr>, st1))"

text \<open>The two loops, with the final cache kept visible.\<close>

definition tech_loop ::
  "world \<Rightarrow> activity list \<Rightarrow> activity list \<times> ((string \<rightharpoonup> ei_index) \<times> nat)" where
  "tech_loop w acts = map_accum (tech_activity w) (Map.empty, 0) acts"

definition fill_missing_technosphere_inputs :: "world \<Rightarrow> activity list \<Rightarrow> activity list \<times> nat" where
  "fill_missing_technosphere_inputs w acts =
     (case tech_loop w acts of (acts1, (indices, fixed)) \<Rightarrow> (acts1, fixed))"

section \<open>Biosphere relinking\<close>

type_synonym bio_key = "string \<times> string list \<times> string"
type_synonym candidate = "string \<times> string \<times> string list \<times> string"

text \<open>
  The normalized category tuple, computed by the same three-way test in the exact index,
  in the name index and for every exchange:
  \<^verbatim>\<open>
  if isinstance(cats, (list, tuple)): cats_t = tuple(_norm(str(x)) for x in cats)
  elif isinstance(cats, str) and cats: cats_t = (_norm(cats),)
  else: cats_t = tuple()
  \<close>
\<close>

definition cats_tuple :: "pyenv \<Rightarrow> pyval \<Rightarrow> string list" where
  "cats_tuple env cats =
     (case cats of
        PList xs \<Rightarrow> map (\<lambda>x. norm (py_str env x)) xs
      | PTuple xs \<Rightarrow> map (\<lambda>x. norm (py_str env x)) xs
      | PStr s \<Rightarrow> (if s \<noteq> [] then [norm s] else [])
      | _ \<Rightarrow> [])"

text \<open>
  \<^verbatim>\<open>_build_biosphere_exact_index\<close>, first over the flows in iteration order, then for
  a database of the project.
\<close>

definition exact_index_of :: "pyenv \<Rightarrow> string \<Rightarrow> pydict list \<Rightarrow> (bio_key \<rightharpoonup> key)" where
  "exact_index_of env db_name flows =
     fold (\<lambda>flow idx.
        let name = dict_get flow ''name'';
            cats = dict_get flow ''categories'';
            unit = dict_get flow ''unit'';
            code = dict_get flow ''code''
        in if \<not> (is_str name \<and> is_str unit \<and> nonempty_str code) then idx
           else idx((norm (str_of name), cats_tuple env cats, norm (str_of unit))
                      \<mapsto> (db_name, str_of code)))
       flows Map.empty"

definition build_biosphere_exact_index :: "pyenv \<Rightarrow> world \<Rightarrow> string \<Rightarrow> (bio_key \<rightharpoonup> key)" where
  "build_biosphere_exact_index env w db_name = exact_index_of env db_name (db_activities w db_name)"

text \<open>
  The name index of \<^verbatim>\<open>_fill_missing_biosphere_inputs\<close>:
  \<^verbatim>\<open>name_idx.setdefault(_norm(name), []).append((biosphere_db, code, cats_t, _norm(unit)))\<close>.
\<close>

definition build_name_index :: "pyenv \<Rightarrow> world \<Rightarrow> string \<Rightarrow> (string \<rightharpoonup> candidate list)" where
  "build_name_index env w biosphere_db =
     fold (\<lambda>flow name_idx.
        let name = dict_get flow ''name'';
            cats = dict_get flow ''categories'';
            unit = dict_get flow ''unit'';
            code = dict_get flow ''code''
        in if \<not> (is_str name \<and> is_str unit \<and> nonempty_str code) then name_idx
           else name_idx(norm (str_of name) \<mapsto>
                  (case name_idx (norm (str_of name)) of None \<Rightarrow> [] | Some l \<Rightarrow> l)
                  @ [(biosphere_db, str_of code, cats_tuple env cats, norm (str_of unit))]))
       (db_activities w biosphere_db) Map.empty"

text \<open>\<^verbatim>\<open>_BIO_NAME_ALIASES = {}\<close>\<close>

definition BIO_NAME_ALIASES :: "string \<rightharpoonup> string list" where
  "BIO_NAME_ALIASES = Map.empty"

text \<open>The de-duplication loop of \<^verbatim>\<open>candidates_for_name\<close>, with its set \<^verbatim>\<open>seen\<close>.\<close>

fun uniq_by_key :: "key set \<Rightarrow> candidate list \<Rightarrow> candidate list" where
  "uniq_by_key seen [] = []"
| "uniq_by_key seen (item # out) =
     (let k = (fst item, fst (snd item))
      in if k \<in> seen then uniq_by_key seen out else item # uniq_by_key (insert k seen) out)"

definition candidates_for_name :: "(string \<rightharpoonup> candidate list) \<Rightarrow> string \<Rightarrow> candidate list" where
  "candidates_for_name name_idx name =
     (let n0 = norm name;
          out = (case name_idx n0 of None \<Rightarrow> [] | Some l \<Rightarrow> l)
                @ concat (map (\<lambda>a. case name_idx (norm a) of None \<Rightarrow> [] | Some l \<Rightarrow> l)
                            (case BIO_NAME_ALIASES n0 of None \<Rightarrow> [] | Some as \<Rightarrow> as))
      in uniq_by_key {} out)"

text \<open>
  \<^verbatim>\<open>choose_best_candidate\<close>. \<^verbatim>\<open>if top_compartment:\<close> holds for a string that is not
  empty; \<open>fallthrough\<close> is the last test of the function, reached when the compartment
  block is skipped or finds no candidate.
\<close>

definition choose_best_candidate :: "candidate list \<Rightarrow> string \<Rightarrow> string option \<Rightarrow> key option" where
  "choose_best_candidate cands unit_n top_compartment =
     (if cands = [] then None
      else
        let c_unit = (if filter (\<lambda>c. snd (snd (snd c)) = unit_n) cands \<noteq> []
                      then filter (\<lambda>c. snd (snd (snd c)) = unit_n) cands else cands);
            fallthrough = (if length c_unit = 1
                           then Some (fst (c_unit ! 0), fst (snd (c_unit ! 0))) else None)
        in case top_compartment of
             None \<Rightarrow> fallthrough
           | Some t \<Rightarrow>
               if t = [] then fallthrough
               else
                 let tc = norm t;
                     c_tc = filter (\<lambda>c. length (fst (snd (snd c))) \<ge> 1 \<and> fst (snd (snd c)) ! 0 = tc) c_unit
                 in if length c_tc = 1 then Some (fst (c_tc ! 0), fst (snd (c_tc ! 0)))
                    else if length c_tc > 1 then None
                    else fallthrough)"

text \<open>
  The body of the inner loop of \<^verbatim>\<open>_fill_missing_biosphere_inputs\<close> for one exchange:
  stages A to D and the final \<^verbatim>\<open>raise ValueError\<close>. The state is the project (stage D
  may create a flow) and the counter \<^verbatim>\<open>fixed\<close>.
\<close>

definition bio_exchange ::
  "pyenv \<Rightarrow> config \<Rightarrow> (bio_key \<rightharpoonup> key) \<Rightarrow> (string \<rightharpoonup> candidate list) \<Rightarrow> (string \<rightharpoonup> string)
   \<Rightarrow> world \<times> nat \<Rightarrow> pyval \<Rightarrow> (error + pyval) \<times> (world \<times> nat)" where
  "bio_exchange env cfg exact_idx name_idx name_map st exc =
     (case exc of
        PDict d \<Rightarrow>
          if dict_get d ''type'' \<noteq> PStr ''biosphere'' then (Inr exc, st)
          else if dict_has d ''input'' then (Inr exc, st)
          else
            let raw_name = dict_get d ''name'';
                cats = dict_get d ''categories'';
                unit = dict_get d ''unit''
            in if \<not> (is_str raw_name \<and> is_str unit) then (Inr exc, st)
               else
                 let cats_t = cats_tuple env cats;
                     top_comp = (if cats_t \<noteq> [] then Some (cats_t ! 0) else None);
                     unit_n = norm (str_of unit);
                     name_n = norm (str_of raw_name)
                 in (case exact_idx (name_n, cats_t, unit_n) of
                       Some hit \<Rightarrow> (Inr (PDict (dict_set d ''input'' (key_val hit))), (fst st, snd st + 1))
                     | None \<Rightarrow>
                         let mapped_name = (case name_map name_n of Some m \<Rightarrow> m | None \<Rightarrow> str_of raw_name);
                             mapped_n = norm mapped_name
                         in (case exact_idx (mapped_n, cats_t, unit_n) of
                               Some hit \<Rightarrow>
                                 (Inr (PDict (dict_set d ''input'' (key_val hit))), (fst st, snd st + 1))
                             | None \<Rightarrow>
                                 let cands = candidates_for_name name_idx mapped_name
                                 in (case choose_best_candidate cands unit_n top_comp of
                                       Some chosen \<Rightarrow>
                                         (Inr (PDict (dict_set d ''input'' (key_val chosen))),
                                          (fst st, snd st + 1))
                                     | None \<Rightarrow>
                                         if allow_create_missing_biosphere_flows cfg
                                         then (case get_or_create_custom_biosphere_flow env
                                                      (custom_biosphere_db_name cfg)
                                                      (str_of raw_name) cats_t unit_n (fst st)
                                               of (new_input, w1) \<Rightarrow>
                                                 (Inr (PDict (dict_set d ''input'' (key_val new_input))),
                                                  (w1, snd st + 1)))
                                         else (Inl (UnresolvedBiosphere raw_name mapped_name cats unit),
                                               st))))
      | _ \<Rightarrow> (Inr exc, st))"

text \<open>The loops stop at the first exception; the project keeps what was created before it.\<close>

fun map_accum_err ::
  "('s \<Rightarrow> 'a \<Rightarrow> ('e + 'b) \<times> 's) \<Rightarrow> 's \<Rightarrow> 'a list \<Rightarrow> ('e + 'b list) \<times> 's" where
  "map_accum_err f s [] = (Inr [], s)"
| "map_accum_err f s (x # xs) =
     (case f s x of
        (Inl e, s1) \<Rightarrow> (Inl e, s1)
      | (Inr y, s1) \<Rightarrow>
          (case map_accum_err f s1 xs of
             (Inl e, s2) \<Rightarrow> (Inl e, s2)
           | (Inr ys, s2) \<Rightarrow> (Inr (y # ys), s2)))"

definition bio_activity ::
  "pyenv \<Rightarrow> config \<Rightarrow> (bio_key \<rightharpoonup> key) \<Rightarrow> (string \<rightharpoonup> candidate list) \<Rightarrow> (string \<rightharpoonup> string)
   \<Rightarrow> world \<times> nat \<Rightarrow> activity \<Rightarrow> (error + activity) \<times> (world \<times> nat)" where
  "bio_activity env cfg exact_idx name_idx name_map st act =
     (case map_accum_err (bio_exchange env cfg exact_idx name_idx name_map) st (exchanges act) of
        (Inl e, st1) \<Rightarrow> (Inl e, st1)
      | (Inr es, st1) \<Rightarrow> (Inr (act\<lparr>exchanges := es\<rparr>), st1))"

definition fill_missing_biosphere_inputs ::
  "pyenv \<Rightarrow> config \<Rightarrow> world \<Rightarrow> activity list \<Rightarrow> string \<Rightarrow> (string \<rightharpoonup> string)
   \<Rightarrow> (error + activity list) \<times> (world \<times> nat)" where
  "fill_missing_biosphere_inputs env cfg w acts biosphere_db name_map =
     (let exact_idx = build_biosphere_exact_index env w biosphere_db;
          name_idx = build_name_index env w biosphere_db
      in map_accum_err (bio_activity env cfg exact_idx name_idx name_map) (w, 0) acts)"

section \<open>Text fields\<close>

definition sanitize_key :: "string \<Rightarrow> pydict \<times> nat \<Rightarrow> pydict \<times> nat" where
  "sanitize_key k dn =
     (if map_of (fst dn) k = Some PNone then (dict_set (fst dn) k (PStr []), snd dn + 1) else dn)"

definition sanitize_exchange :: "nat \<Rightarrow> pyval \<Rightarrow> pyval \<times> nat" where
  "sanitize_exchange changed exc =
     (case exc of
        PDict d \<Rightarrow> (case sanitize_key ''comment'' (d, changed) of (d1, c) \<Rightarrow> (PDict d1, c))
      | _ \<Rightarrow> (exc, changed))"

definition sanitize_dataset_text_fields :: "activity list \<Rightarrow> activity list \<times> nat" where
  "sanitize_dataset_text_fields acts =
     map_accum (\<lambda>changed act.
        case sanitize_key ''description'' (sanitize_key ''comment'' (attrs act, changed)) of
          (a1, c1) \<Rightarrow>
            (case map_accum sanitize_exchange c1 (exchanges act) of
               (es, c2) \<Rightarrow> (\<lparr>attrs = a1, exchanges = es\<rparr>, c2))) 0 acts"

section \<open>Validator\<close>

text \<open>
  \<^verbatim>\<open>def _is_number(x): return isinstance(x, (int, float)) and not (x != x)\<close>

  \<^verbatim>\<open>bool\<close> is a subclass of \<^verbatim>\<open>int\<close>; \<^verbatim>\<open>x != x\<close> holds for NaN only.
\<close>

fun is_int_or_float :: "pyval \<Rightarrow> bool" where
  "is_int_or_float (PInt i) = True"
| "is_int_or_float (PBool b) = True"
| "is_int_or_float (PFloat f) = True"
| "is_int_or_float _ = False"

fun ne_self :: "pyval \<Rightarrow> bool" where
  "ne_self (PFloat FNaN) = True"
| "ne_self _ = False"

definition is_number :: "pyval \<Rightarrow> bool" where
  "is_number x = (is_int_or_float x \<and> \<not> ne_self x)"

text \<open>
  The membership test \<^verbatim>\<open>exc["type"] not in {...}\<close> hashes its left operand, which
  raises \<^verbatim>\<open>TypeError\<close> for a list, a dictionary or a tuple holding one.
\<close>

fun hashable :: "pyval \<Rightarrow> bool" where
  "hashable (PList xs) = False"
| "hashable (PDict d) = False"
| "hashable (PTuple xs) = (\<forall>x\<in>set xs. hashable x)"
| "hashable _ = True"

text \<open>
  The checks of \<^verbatim>\<open>_validate_importer_payload\<close> on one exchange of the activity with
  \<^verbatim>\<open>adb = act.get("database")\<close> and \<^verbatim>\<open>acode = act.get("code")\<close>: the exception raised,
  if any.
\<close>

definition validate_exchange :: "pyval \<times> pyval \<Rightarrow> pyval \<Rightarrow> error option" where
  "validate_exchange ctx exc =
     (case exc of
        PDict d \<Rightarrow>
          let missing = filter (\<lambda>k. \<not> dict_has d k) [''type'', ''amount'', ''input'']
          in if missing \<noteq> [] then Some (MissingKeys missing ctx exc)
             else if \<not> hashable (dict_get d ''type'') then Some (UnhashableType ctx exc)
             else if dict_get d ''type'' \<notin> {PStr ''production'', PStr ''technosphere'', PStr ''biosphere''}
                  then Some (InvalidExchangeType ctx exc)
             else if \<not> is_number (dict_get d ''amount'') then Some (NonNumericAmount ctx exc)
             else
               let inp = dict_get d ''input''
               in if \<not> (case inp of PTuple [a, b] \<Rightarrow> nonempty_str a \<and> nonempty_str b | _ \<Rightarrow> False)
                  then Some (InvalidInputFormat ctx exc)
                  else if dict_get d ''type'' = PStr ''production''
                          \<and> nonempty_str (fst ctx) \<and> nonempty_str (snd ctx)
                          \<and> inp \<noteq> PTuple [fst ctx, snd ctx]
                       then Some (ProductionMismatch ctx inp exc)
                       else None
      | _ \<Rightarrow> Some (NonDictExchange ctx exc))"

fun validate_exchanges :: "pyval \<times> pyval \<Rightarrow> pyval list \<Rightarrow> error option" where
  "validate_exchanges ctx [] = None"
| "validate_exchanges ctx (exc # excs) =
     (case validate_exchange ctx exc of Some e \<Rightarrow> Some e | None \<Rightarrow> validate_exchanges ctx excs)"

fun validate_importer_payload :: "activity list \<Rightarrow> error option" where
  "validate_importer_payload [] = None"
| "validate_importer_payload (act # acts) =
     (case validate_exchanges (dict_get (attrs act) ''database'', dict_get (attrs act) ''code'')
             (exchanges act) of
        Some e \<Rightarrow> Some e
      | None \<Rightarrow> validate_importer_payload acts)"

section \<open>Orchestration\<close>

text \<open>\<^verbatim>\<open>_databases_in_importer\<close> for a payload that is a list of activities.\<close>

definition databases_in_importer :: "activity list \<Rightarrow> string set" where
  "databases_in_importer acts =
     set (map (\<lambda>act. str_of (dict_get (attrs act) ''database''))
            (filter (\<lambda>act. nonempty_str (dict_get (attrs act) ''database'')) acts))"

text \<open>
  \<^verbatim>\<open>importer.write_database()\<close> belongs to the import library. Its effect here: the
  batch is committed, and each database it names is registered with the datasets of the
  batch.
\<close>

definition write_database :: "activity list \<Rightarrow> world \<Rightarrow> world" where
  "write_database acts w =
     \<lparr> dbs = (\<lambda>n. if n \<in> databases_in_importer acts
                  then Some (map (\<lambda>act. ((n, str_of (dict_get (attrs act) ''code'')),
                                          attrs act @ [(''exchanges'', PList (exchanges act))]))
                               (filter (\<lambda>act. dict_get (attrs act) ''database'' = PStr n) acts))
                  else dbs w n),
       committed = committed w @ [acts] \<rparr>"

text \<open>
  \<^verbatim>\<open>importer.statistics()\<close> belongs to the import library too. It reads
  \<^verbatim>\<open>exc.get("input")\<close> of every exchange, which raises \<^verbatim>\<open>AttributeError\<close> for the
  first exchange that is not a dictionary; this is the part of it that is modelled.
\<close>

definition statistics :: "activity list \<Rightarrow> error option" where
  "statistics acts =
     (case filter (\<lambda>exc. case exc of PDict d \<Rightarrow> False | _ \<Rightarrow> True) (concat (map exchanges acts)) of
        [] \<Rightarrow> None
      | exc # excs \<Rightarrow> Some (StatisticsAttributeError exc))"

text \<open>
  \<^verbatim>\<open>_process_excel\<close> of \<^verbatim>\<open>import_lci_bw2.py\<close>, from the payload that
  \<^verbatim>\<open>importer.apply_strategies()\<close> leaves, a list of activities, in two parts.
  \<open>relink_payload\<close> is the function up to and including \<^verbatim>\<open>importer.statistics()\<close>:
  it gives the exception that ended it, or the payload as it reaches the validation step,
  and the project at that point. \<open>process_excel\<close> is the whole function: after the
  relinking it deletes the databases of the batch when overwriting is configured, validates,
  and writes. Its result is the exception that ends the function, if any, and the project
  afterwards. The variant \<^verbatim>\<open>import_lci_bw25.py\<close> differs in passing the configured
  biosphere name where this one passes \<^verbatim>\<open>"biosphere3"\<close>; the relinking and validation
  functions are the same in both files.
\<close>

definition relink_payload ::
  "pyenv \<Rightarrow> config \<Rightarrow> string \<Rightarrow> (string \<rightharpoonup> string) \<Rightarrow> activity list \<Rightarrow> world
   \<Rightarrow> (error + activity list) \<times> world" where
  "relink_payload env cfg actual_ecoinvent_db biosphere_name_map data w =
     (let acts1 = fst (normalize_exchange_inputs_to_tuples data);
          acts2 = fst (rewrite_background_db_label acts1 (excel_background_db_name cfg) actual_ecoinvent_db);
          acts3 = fst (fill_missing_technosphere_inputs w acts2)
      in case fill_missing_biosphere_inputs env cfg w acts3 ''biosphere3'' biosphere_name_map of
           (Inl e, (w1, n_bio)) \<Rightarrow> (Inl e, w1)
         | (Inr acts4, (w1, n_bio)) \<Rightarrow>
             let acts5 = fst (sanitize_dataset_text_fields acts4)
             in (case statistics acts5 of
                   Some e \<Rightarrow> (Inl e, w1)
                 | None \<Rightarrow> (Inr acts5, w1)))"

definition process_excel ::
  "pyenv \<Rightarrow> config \<Rightarrow> string \<Rightarrow> (string \<rightharpoonup> string) \<Rightarrow> activity list \<Rightarrow> world \<Rightarrow> error option \<times> world" where
  "process_excel env cfg actual_ecoinvent_db biosphere_name_map data w =
     (case relink_payload env cfg actual_ecoinvent_db biosphere_name_map data w of
        (Inl e, w1) \<Rightarrow> (Some e, w1)
      | (Inr acts5, w1) \<Rightarrow>
          let metal_dbs = databases_in_importer acts5;
              w2 = (if overwrite_metal_databases cfg
                    then w1\<lparr>dbs := (\<lambda>n. if n \<in> metal_dbs then None else dbs w1 n)\<rparr>
                    else w1)
          in (case validate_importer_payload acts5 of
                Some e \<Rightarrow> (Some e, w2)
              | None \<Rightarrow> (None, write_database acts5 w2)))"

section \<open>A sample environment\<close>

text \<open>
  For evaluating the model on concrete inputs: \<open>sample_repr\<close> is \<^verbatim>\<open>repr\<close> on strings
  that need no escaping and on tuples of them, and the digest is the identity. The
  theorems below hold for every environment.
\<close>

fun sample_repr :: "pyval \<Rightarrow> string" where
  "sample_repr (PStr s) = [CHR 0x27] @ s @ [CHR 0x27]"
| "sample_repr (PTuple [x]) = ''('' @ sample_repr x @ '',)''"
| "sample_repr (PTuple xs) = ''('' @ py_join '', '' (map sample_repr xs) @ '')''"
| "sample_repr _ = ''?''"

definition sample_env :: pyenv where
  "sample_env = \<lparr> md5_hexdigest = (\<lambda>b. b), py_repr = sample_repr \<rparr>"

section \<open>Reference predicates and sample data\<close>

text \<open>
  \<open>finite_number\<close> is the reading of ``a finite numeric value'': an integer (or a
  boolean, which Python counts as one) or a float that is neither NaN nor an infinity.
  It is not taken from the code; \<open>is_number\<close> is compared with it.
\<close>

fun finite_number :: "pyval \<Rightarrow> bool" where
  "finite_number (PInt i) = True"
| "finite_number (PBool b) = True"
| "finite_number (PFloat (FFinite m e)) = True"
| "finite_number _ = False"




text \<open>
  Sample payloads: a production exchange that points to \<open>(m1, p2)\<close>, a biosphere
  exchange with a given amount, and datasets that own them.
\<close>

definition exc_production_p2 :: pydict where
  "exc_production_p2 = [(''type'', PStr ''production''), (''amount'', PInt 1),
                        (''input'', PTuple [PStr ''m1'', PStr ''p2''])]"

definition exc_amount :: "pyval \<Rightarrow> pydict" where
  "exc_amount x = [(''type'', PStr ''biosphere''), (''amount'', x),
                   (''input'', PTuple [PStr ''biosphere3'', PStr ''abc''])]"

definition dataset_m1_p1 :: activity where
  "dataset_m1_p1 = \<lparr>attrs = [(''database'', PStr ''m1''), (''code'', PStr ''p1'')],
                     exchanges = [PDict exc_production_p2]\<rparr>"

definition dataset_m0_p0 :: activity where
  "dataset_m0_p0 = \<lparr>attrs = [(''database'', PStr ''m0''), (''code'', PStr ''p0'')],
                     exchanges = [PDict (exc_amount (PFloat FNaN))]\<rparr>"

definition dataset_m1_nocode :: activity where
  "dataset_m1_nocode = \<lparr>attrs = [(''database'', PStr ''m1''), (''code'', PStr [])],
                         exchanges = [PDict exc_production_p2]\<rparr>"

definition fresh_project :: world where
  "fresh_project = \<lparr>dbs = Map.empty, committed = []\<rparr>"

text \<open>
  The test that guards an index entry (the negation of the \<^verbatim>\<open>continue\<close> condition) and
  the key computed for a flow, named for use in statements. \<open>carries_required_fields\<close>
  is the reading of ``carrying every required field (name, categories, unit, identifier)'';
  it is not taken from the code.
\<close>

definition flow_indexable :: "pydict \<Rightarrow> bool" where
  "flow_indexable flow =
     (is_str (dict_get flow ''name'') \<and> is_str (dict_get flow ''unit'')
      \<and> nonempty_str (dict_get flow ''code''))"

definition flow_exact_key :: "pyenv \<Rightarrow> pydict \<Rightarrow> bio_key" where
  "flow_exact_key env flow =
     (norm (str_of (dict_get flow ''name'')), cats_tuple env (dict_get flow ''categories''),
      norm (str_of (dict_get flow ''unit'')))"

definition carries_required_fields :: "pydict \<Rightarrow> bool" where
  "carries_required_fields flow =
     (dict_has flow ''name'' \<and> dict_has flow ''categories'' \<and> dict_has flow ''unit''
      \<and> dict_has flow ''code'')"

text \<open>Sample reference flows.\<close>

definition flow_co2_no_categories :: pydict where
  "flow_co2_no_categories =
     [(''name'', PStr ''Carbon dioxide''), (''unit'', PStr ''kg''), (''code'', PStr ''abc'')]"

definition flow_co2_air :: pydict where
  "flow_co2_air =
     [(''name'', PStr ''Carbon dioxide''), (''categories'', PList [PStr ''air'']),
      (''unit'', PStr ''kg''), (''code'', PStr ''abc'')]"

definition flow_co2_water :: pydict where
  "flow_co2_water =
     [(''name'', PStr ''Carbon dioxide''), (''categories'', PTuple [PStr ''water'']),
      (''unit'', PStr ''kg''), (''code'', PStr ''def'')]"

definition flow_no_unit :: pydict where
  "flow_no_unit =
     [(''name'', PStr ''Methane''), (''categories'', PList [PStr ''air'']), (''code'', PStr ''xyz'')]"

text \<open>The key and value that an indexable flow contributes.\<close>

definition flow_entry :: "pyenv \<Rightarrow> string \<Rightarrow> pydict \<Rightarrow> bio_key \<times> key" where
  "flow_entry env db_name flow = (flow_exact_key env flow, (db_name, str_of (dict_get flow ''code'')))"

text \<open>
  The components of a candidate tuple \<open>(db, code, categories, unit)\<close>, and the two
  filters of \<^verbatim>\<open>choose_best_candidate\<close> as the specification words them: keep the
  candidates whose unit matches, or all of them if none does; keep the candidates whose
  first category is the given one. \<open>flow_candidate\<close> is the tuple that the name index
  stores for a flow.
\<close>

definition cand_key :: "candidate \<Rightarrow> key" where
  "cand_key c = (fst c, fst (snd c))"

definition cand_cats :: "candidate \<Rightarrow> string list" where
  "cand_cats c = fst (snd (snd c))"

definition cand_unit :: "candidate \<Rightarrow> string" where
  "cand_unit c = snd (snd (snd c))"

definition unit_filtered :: "candidate list \<Rightarrow> string \<Rightarrow> candidate list" where
  "unit_filtered cands unit_n =
     (if \<exists>c\<in>set cands. cand_unit c = unit_n then filter (\<lambda>c. cand_unit c = unit_n) cands
      else cands)"

definition top_matching :: "string \<Rightarrow> candidate list \<Rightarrow> candidate list" where
  "top_matching tc cands = filter (\<lambda>c. cand_cats c \<noteq> [] \<and> hd (cand_cats c) = tc) cands"

definition flow_candidate :: "pyenv \<Rightarrow> string \<Rightarrow> pydict \<Rightarrow> candidate" where
  "flow_candidate env db_name flow =
     (db_name, str_of (dict_get flow ''code''), cats_tuple env (dict_get flow ''categories''),
      norm (str_of (dict_get flow ''unit'')))"

text \<open>A project whose biosphere holds carbon dioxide to air and to water.\<close>

definition project_co2 :: world where
  "project_co2 =
     \<lparr>dbs = [''biosphere3'' \<mapsto> [((''biosphere3'', ''abc''), flow_co2_air),
                                  ((''biosphere3'', ''def''), flow_co2_water)]],
      committed = []\<rparr>"

definition exc_unknown_pollutant :: pydict where
  "exc_unknown_pollutant =
     [(''type'', PStr ''biosphere''), (''amount'', PInt 1), (''name'', PStr ''Unknown Pollutant X''),
      (''categories'', PList [PStr ''Soil'']), (''unit'', PStr ''KG'')]"

definition CFG_create :: config where
  "CFG_create = CFG\<lparr>allow_create_missing_biosphere_flows := True\<rparr>"

text \<open>
  The project after two calls of the factory in a fresh project, for the flows \<open>Unknown
  Pollutant X\<close> to soil and \<open>Other\<close> to air.
\<close>

definition project_after_two_flows :: world where
  "project_after_two_flows =
     snd (get_or_create_custom_biosphere_flow sample_env ''biosphere_custom'' ''Other'' [''air''] ''kg''
       (snd (get_or_create_custom_biosphere_flow sample_env ''biosphere_custom'' ''Unknown Pollutant X''
               [''soil''] ''kg'' fresh_project)))"

text \<open>
  A technosphere exchange that names a database the project does not have, its dataset,
  a biosphere exchange that matches no reference flow, and the configuration with the
  synthetic-flow fallback enabled.
\<close>

definition exc_tech_unknown_db :: pydict where
  "exc_tech_unknown_db =
     [(''type'', PStr ''technosphere''), (''amount'', PInt 2), (''database'', PStr ''ecoinvent 3.9''),
      (''name'', PStr ''steel production''), (''reference product'', PStr ''steel''),
      (''location'', PStr ''GLO'')]"

definition dataset_tech :: activity where
  "dataset_tech = \<lparr>attrs = [(''database'', PStr ''m1''), (''code'', PStr ''p1'')],
                    exchanges = [PDict exc_tech_unknown_db]\<rparr>"

section \<open>Properties of the normalizer\<close>














lemma py_isspace_lower [simp]: "py_isspace (py_lower_char c) = py_isspace c"
  by (auto simp: py_isspace_def py_lower_char_def Let_def)

lemma py_lower_char_idem [simp]: "py_lower_char (py_lower_char c) = py_lower_char c"
  by (auto simp: py_lower_char_def Let_def)




























section \<open>Properties of the validator\<close>

lemma is_number_cases:
  "is_number x = (case x of PInt i \<Rightarrow> True | PBool b \<Rightarrow> True | PFloat f \<Rightarrow> f \<noteq> FNaN | _ \<Rightarrow> False)"
  by (cases x rule: ne_self.cases) (simp_all add: is_number_def)

lemma dict_has_get: "dict_get d k \<noteq> PNone \<Longrightarrow> dict_has d k"
  by (auto simp: dict_get_def dict_has_def split: option.splits)

lemma validate_exchange_amount:
  "validate_exchange ctx (PDict d) = None \<Longrightarrow> is_number (dict_get d ''amount'')"
  by (simp add: validate_exchange_def Let_def split: if_splits)

lemma validate_exchange_non_numeric:
  assumes "dict_has d ''type''" "dict_has d ''amount''" "dict_has d ''input''"
    and "dict_get d ''type'' \<in> {PStr ''production'', PStr ''technosphere'', PStr ''biosphere''}"
    and "\<not> is_number (dict_get d ''amount'')"
  shows "validate_exchange ctx (PDict d) = Some (NonNumericAmount ctx (PDict d))"
  using assms by (auto simp: validate_exchange_def Let_def)

text \<open>
  C4, as stated, fails: \<^verbatim>\<open>float("inf")\<close> is an instance of \<^verbatim>\<open>float\<close> and equals
  itself, so \<open>is_number\<close> accepts it and an exchange with an infinite amount passes the
  validator, although the amount is not finite.
\<close>

theorem infinite_amount_accepted_counterexample:
  "is_number (PFloat (FInf False)) \<and> \<not> finite_number (PFloat (FInf False))
   \<and> validate_exchange (PStr ''m1'', PStr ''p1'') (PDict (exc_amount (PFloat (FInf False)))) = None"
  by (simp add: is_number_def validate_exchange_def dict_has_def dict_get_def exc_amount_def)

lemma validate_exchange_amount_error:
  "validate_exchange ctx exc = Some (NonNumericAmount c e) \<Longrightarrow>
   \<exists>d. exc = PDict d \<and> \<not> is_number (dict_get d ''amount'') \<and> c = ctx \<and> e = exc"
  by (cases exc) (auto simp: validate_exchange_def Let_def split: if_splits)

lemma validate_exchange_amount_iff:
  assumes "dict_has d ''type''" "dict_has d ''amount''" "dict_has d ''input''"
    and "dict_get d ''type'' \<in> {PStr ''production'', PStr ''technosphere'', PStr ''biosphere''}"
  shows "validate_exchange ctx (PDict d) = Some (NonNumericAmount ctx (PDict d))
         \<longleftrightarrow> \<not> is_number (dict_get d ''amount'')"
  using assms by (auto simp: validate_exchange_def Let_def)

lemma validate_exchange_accepts_iff:
  assumes "dict_get d ''type'' \<in> {PStr ''production'', PStr ''technosphere'', PStr ''biosphere''}"
    and "dict_get d ''input'' = PTuple [PStr a, PStr b]" and "a \<noteq> []" and "b \<noteq> []"
    and "dict_get d ''type'' = PStr ''production'' \<longrightarrow>
           \<not> (nonempty_str (fst ctx) \<and> nonempty_str (snd ctx)) \<or> (fst ctx = PStr a \<and> snd ctx = PStr b)"
  shows "validate_exchange ctx (PDict d) = None \<longleftrightarrow> is_number (dict_get d ''amount'')"
proof
  assume "validate_exchange ctx (PDict d) = None"
  then show "is_number (dict_get d ''amount'')" by (rule validate_exchange_amount)
next
  assume n: "is_number (dict_get d ''amount'')"
  then have "dict_get d ''amount'' \<noteq> PNone" by (auto simp: is_number_def)
  then have "dict_has d ''amount''" by (rule dict_has_get)
  moreover have "dict_has d ''type''" "dict_has d ''input''"
    using assms(1,2) by (auto intro: dict_has_get)
  ultimately show "validate_exchange ctx (PDict d) = None"
    using assms n by (auto simp: validate_exchange_def Let_def)
qed

text \<open>
  C4, amended. The validator accepts an amount if and only if it is an integer, a boolean
  or a float other than NaN: every finite number is accepted, and so are the infinities.
  At the validator this holds in both directions. An exchange that has the three keys and a
  valid type is rejected with \<open>NonNumericAmount\<close>, naming the activity and the exchange,
  exactly when its amount is not such a number, and this error is raised for no other
  reason. An exchange whose type and reference are well formed, and which the production
  check does not concern or does not fault, passes validation exactly when its amount is
  such a number.
\<close>

theorem amount_accepted_iff_not_nan:
  "(is_number x \<longleftrightarrow> (case x of PInt i \<Rightarrow> True | PBool b \<Rightarrow> True | PFloat f \<Rightarrow> f \<noteq> FNaN | _ \<Rightarrow> False))
   \<and> (finite_number x \<longrightarrow> is_number x)
   \<and> is_number (PFloat (FInf neg))
   \<and> (validate_exchange ctx (PDict d) = None \<longrightarrow> is_number (dict_get d ''amount''))
   \<and> (dict_has d ''type'' \<and> dict_has d ''amount'' \<and> dict_has d ''input''
        \<and> dict_get d ''type'' \<in> {PStr ''production'', PStr ''technosphere'', PStr ''biosphere''}
        \<and> \<not> is_number (dict_get d ''amount'')
       \<longrightarrow> validate_exchange ctx (PDict d) = Some (NonNumericAmount ctx (PDict d)))
   \<and> (dict_has d ''type'' \<and> dict_has d ''amount'' \<and> dict_has d ''input''
        \<and> dict_get d ''type'' \<in> {PStr ''production'', PStr ''technosphere'', PStr ''biosphere''}
       \<longrightarrow> (validate_exchange ctx (PDict d) = Some (NonNumericAmount ctx (PDict d))
            \<longleftrightarrow> \<not> is_number (dict_get d ''amount'')))
   \<and> (validate_exchange ctx exc = Some (NonNumericAmount c e) \<longrightarrow>
        (\<exists>d'. exc = PDict d' \<and> \<not> is_number (dict_get d' ''amount'') \<and> c = ctx \<and> e = exc))
   \<and> (dict_get d ''type'' \<in> {PStr ''production'', PStr ''technosphere'', PStr ''biosphere''}
        \<and> dict_get d ''input'' = PTuple [PStr a, PStr b] \<and> a \<noteq> [] \<and> b \<noteq> []
        \<and> (dict_get d ''type'' = PStr ''production'' \<longrightarrow>
             \<not> (nonempty_str (fst ctx) \<and> nonempty_str (snd ctx)) \<or> (fst ctx = PStr a \<and> snd ctx = PStr b))
       \<longrightarrow> (validate_exchange ctx (PDict d) = None \<longleftrightarrow> is_number (dict_get d ''amount'')))"
proof (intro conjI impI)
  show "is_number x \<longleftrightarrow> (case x of PInt i \<Rightarrow> True | PBool b \<Rightarrow> True | PFloat f \<Rightarrow> f \<noteq> FNaN | _ \<Rightarrow> False)"
    by (rule is_number_cases)
  show "is_number (PFloat (FInf neg))"
    by (simp add: is_number_def)
next
  assume "finite_number x"
  then show "is_number x"
    by (cases x rule: finite_number.cases) (simp_all add: is_number_def)
next
  assume "validate_exchange ctx (PDict d) = None"
  then show "is_number (dict_get d ''amount'')" by (rule validate_exchange_amount)
next
  assume "dict_has d ''type'' \<and> dict_has d ''amount'' \<and> dict_has d ''input''
        \<and> dict_get d ''type'' \<in> {PStr ''production'', PStr ''technosphere'', PStr ''biosphere''}
        \<and> \<not> is_number (dict_get d ''amount'')"
  then show "validate_exchange ctx (PDict d) = Some (NonNumericAmount ctx (PDict d))"
    by (intro validate_exchange_non_numeric) simp_all
next
  assume "dict_has d ''type'' \<and> dict_has d ''amount'' \<and> dict_has d ''input''
        \<and> dict_get d ''type'' \<in> {PStr ''production'', PStr ''technosphere'', PStr ''biosphere''}"
  then show "validate_exchange ctx (PDict d) = Some (NonNumericAmount ctx (PDict d))
            \<longleftrightarrow> \<not> is_number (dict_get d ''amount'')"
    by (intro validate_exchange_amount_iff) simp_all
next
  assume "validate_exchange ctx exc = Some (NonNumericAmount c e)"
  then show "\<exists>d'. exc = PDict d' \<and> \<not> is_number (dict_get d' ''amount'') \<and> c = ctx \<and> e = exc"
    by (rule validate_exchange_amount_error)
next
  assume h: "dict_get d ''type'' \<in> {PStr ''production'', PStr ''technosphere'', PStr ''biosphere''}
        \<and> dict_get d ''input'' = PTuple [PStr a, PStr b] \<and> a \<noteq> [] \<and> b \<noteq> []
        \<and> (dict_get d ''type'' = PStr ''production'' \<longrightarrow>
             \<not> (nonempty_str (fst ctx) \<and> nonempty_str (snd ctx)) \<or> (fst ctx = PStr a \<and> snd ctx = PStr b))"
  show "validate_exchange ctx (PDict d) = None \<longleftrightarrow> is_number (dict_get d ''amount'')"
    by (rule validate_exchange_accepts_iff[where a = a and b = b]) (use h in blast)+
qed

lemma validate_exchanges_None_iff:
  "validate_exchanges ctx es = None \<longleftrightarrow> (\<forall>e\<in>set es. validate_exchange ctx e = None)"
  by (induction es) (auto split: option.splits)

lemma validate_exchanges_append:
  "validate_exchanges ctx pre = None \<Longrightarrow> validate_exchanges ctx (pre @ es) = validate_exchanges ctx es"
  by (induction pre) (auto split: option.splits)

lemma validate_payload_None_iff:
  "validate_importer_payload acts = None \<longleftrightarrow>
   (\<forall>a\<in>set acts. validate_exchanges (dict_get (attrs a) ''database'', dict_get (attrs a) ''code'')
                     (exchanges a) = None)"
  by (induction acts) (auto split: option.splits)

lemma validate_payload_append:
  "validate_importer_payload pre = None \<Longrightarrow>
   validate_importer_payload (pre @ acts) = validate_importer_payload acts"
  by (induction pre) (auto split: option.splits)

lemma validate_exchange_production_mismatch:
  assumes "db \<noteq> []" "c \<noteq> []" "x \<noteq> []" "y \<noteq> []" "(x, y) \<noteq> (db, c)"
    and "dict_get d ''type'' = PStr ''production''"
    and "is_number (dict_get d ''amount'')"
    and "dict_get d ''input'' = PTuple [PStr x, PStr y]"
  shows "validate_exchange (PStr db, PStr c) (PDict d)
         = Some (ProductionMismatch (PStr db, PStr c) (PTuple [PStr x, PStr y]) (PDict d))"
proof -
  have "dict_get d ''amount'' \<noteq> PNone" using assms(7) by (auto simp: is_number_def)
  then have "dict_has d ''type''" "dict_has d ''amount''" "dict_has d ''input''"
    using assms(6,8) by (simp_all add: dict_has_get)
  then show ?thesis
    using assms by (auto simp: validate_exchange_def Let_def)
qed

lemma validate_exchange_production_rejected:
  assumes "nonempty_str adb" "nonempty_str acode"
    and "dict_get d ''type'' = PStr ''production''"
    and "dict_get d ''input'' \<noteq> PTuple [adb, acode]"
  shows "validate_exchange (adb, acode) (PDict d) \<noteq> None"
  using assms by (auto simp: validate_exchange_def Let_def)

lemma validate_exchange_skips_production_check:
  assumes "\<not> (nonempty_str adb \<and> nonempty_str acode)"
    and "a \<noteq> []" "b \<noteq> []"
    and "dict_get d ''type'' = PStr ''production''"
    and "is_number (dict_get d ''amount'')"
    and "dict_get d ''input'' = PTuple [PStr a, PStr b]"
  shows "validate_exchange (adb, acode) (PDict d) = None"
proof -
  have "dict_get d ''amount'' \<noteq> PNone" using assms(5) by (auto simp: is_number_def)
  then have "dict_has d ''type''" "dict_has d ''amount''" "dict_has d ''input''"
    using assms(4,6) by (simp_all add: dict_has_get)
  then show ?thesis
    using assms by (auto simp: validate_exchange_def Let_def)
qed

lemma validate_exchange_never_mismatch:
  "\<not> (nonempty_str adb \<and> nonempty_str acode) \<Longrightarrow>
   validate_exchange (adb, acode) exc \<noteq> Some (ProductionMismatch ctx inp e)"
  by (auto simp: validate_exchange_def Let_def split: pyval.splits if_splits)

lemma committed_get_or_create:
  "committed (snd (get_or_create_custom_biosphere_flow env db n c u w)) = committed w"
  by (simp add: get_or_create_custom_biosphere_flow_def Let_def ensure_custom_biosphere_db_def
      db_write_def)

lemma committed_bio_exchange:
  "committed (fst (snd (bio_exchange env cfg ei ni nm st exc))) = committed (fst st)"
  by (simp add: bio_exchange_def Let_def split_beta committed_get_or_create
      split: pyval.splits option.splits)

lemma map_accum_err_inv:
  assumes "\<And>s x. g (snd (f s x)) = g s"
  shows "g (snd (map_accum_err f s xs)) = g s"
proof (induction xs arbitrary: s)
  case Nil
  then show ?case by simp
next
  case (Cons x xs)
  obtain r s1 where fx: "f s x = (r, s1)" by (cases "f s x")
  then have g1: "g s1 = g s" using assms[of s x] by simp
  show ?case
  proof (cases r)
    case (Inl e)
    then show ?thesis using fx g1 by simp
  next
    case (Inr y)
    obtain r2 s2 where m: "map_accum_err f s1 xs = (r2, s2)" by (cases "map_accum_err f s1 xs")
    then have "g s2 = g s1" using Cons.IH[of s1] by simp
    then show ?thesis using fx Inr m g1 by (cases r2) simp_all
  qed
qed

lemma committed_bio_activity:
  "committed (fst (snd (bio_activity env cfg ei ni nm st act))) = committed (fst st)"
proof -
  have "committed (fst (snd (map_accum_err (bio_exchange env cfg ei ni nm) st (exchanges act))))
        = committed (fst st)"
    by (rule map_accum_err_inv[where g = "\<lambda>s. committed (fst s)"]) (rule committed_bio_exchange)
  then show ?thesis
    by (auto simp: bio_activity_def split: prod.splits sum.splits)
qed

lemma committed_fill_bio:
  "committed (fst (snd (fill_missing_biosphere_inputs env cfg w acts db nm))) = committed w"
proof -
  have "committed (fst (snd (map_accum_err (bio_activity env cfg ei ni nm) (w, 0) acts)))
        = committed (fst (w, 0 :: nat))" for ei ni
    by (rule map_accum_err_inv[where g = "\<lambda>s. committed (fst s)"]) (rule committed_bio_activity)
  then show ?thesis by (simp add: fill_missing_biosphere_inputs_def Let_def)
qed

lemma committed_relink:
  "committed (snd (relink_payload env cfg edb nm data w)) = committed w"
proof -
  let ?acts3 = "fst (fill_missing_technosphere_inputs w
     (fst (rewrite_background_db_label (fst (normalize_exchange_inputs_to_tuples data))
        (excel_background_db_name cfg) edb)))"
  obtain rb w1 n where fb: "fill_missing_biosphere_inputs env cfg w ?acts3 ''biosphere3'' nm = (rb, (w1, n))"
    by (metis prod.exhaust)
  have c1: "committed w1 = committed w"
    using committed_fill_bio[of env cfg w ?acts3 "''biosphere3''" nm] fb by simp
  show ?thesis
    using fb c1 by (cases rb) (auto simp: relink_payload_def Let_def split: option.splits)
qed

lemma process_excel_after_relink:
  assumes "relink_payload env cfg edb nm data w = (Inr acts, w1)"
  shows "(validate_importer_payload acts \<noteq> None \<longrightarrow>
            fst (process_excel env cfg edb nm data w) = validate_importer_payload acts
            \<and> committed (snd (process_excel env cfg edb nm data w)) = committed w)
       \<and> (validate_importer_payload acts = None \<longrightarrow>
            fst (process_excel env cfg edb nm data w) = None
            \<and> committed (snd (process_excel env cfg edb nm data w)) = committed w @ [acts])"
proof -
  have c1: "committed w1 = committed w"
    using committed_relink[of env cfg edb nm data w] assms by simp
  show ?thesis
    using c1 by (cases "validate_importer_payload acts")
      (auto simp: process_excel_def assms Let_def write_database_def)
qed

lemma process_excel_commit:
  assumes "process_excel env cfg edb nm data w = (r, w')"
  shows "(r \<noteq> None \<and> committed w' = committed w)
       \<or> (r = None \<and> (\<exists>acts. committed w' = committed w @ [acts] \<and> validate_importer_payload acts = None))"
proof -
  obtain rp w1 where rl: "relink_payload env cfg edb nm data w = (rp, w1)"
    by (metis prod.exhaust)
  show ?thesis
  proof (cases rp)
    case (Inl e)
    have "committed w1 = committed w"
      using committed_relink[of env cfg edb nm data w] rl by simp
    then show ?thesis using assms rl Inl by (auto simp: process_excel_def)
  next
    case (Inr acts)
    note a = process_excel_after_relink[OF rl[unfolded Inr]]
    show ?thesis
    proof (cases "validate_importer_payload acts")
      case None
      then show ?thesis using a assms by auto
    next
      case (Some e)
      then show ?thesis using a assms by auto
    qed
  qed
qed

text \<open>
  C2, amended. Let a dataset of the batch have a well-formed identity \<open>(db, c)\<close> and
  own a production exchange whose \<^verbatim>\<open>input\<close> is not \<open>(db, c)\<close>. Then validation of
  the batch raises an error. Every run of \<open>process_excel\<close> whose payload reaches the
  validation step as this batch ends with that error and leaves the log of committed
  batches as it was: validation comes before \<open>write_database\<close>. More generally a run
  either ends with an error and commits nothing, or ends normally and commits exactly one
  batch, which has passed validation. The error raised is that of the first failing check
  in iteration order: it is \<open>ProductionMismatch\<close>, naming the dataset \<open>(db, c)\<close> and
  the offending reference, when the datasets and exchanges before this exchange validate
  and the exchange itself has a numeric amount and a well-formed reference.
\<close>

theorem production_mismatch_rejected_before_commit:
  assumes "dict_get (attrs a) ''database'' = PStr db" and "dict_get (attrs a) ''code'' = PStr c"
    and "db \<noteq> []" and "c \<noteq> []"
    and "dict_get d ''type'' = PStr ''production''"
    and "dict_get d ''input'' \<noteq> PTuple [PStr db, PStr c]"
    and "a \<in> set acts" and "PDict d \<in> set (exchanges a)"
  shows "validate_importer_payload acts \<noteq> None
     \<and> (\<forall>env cfg edb nm data w w1.
           relink_payload env cfg edb nm data w = (Inr acts, w1) \<longrightarrow>
             fst (process_excel env cfg edb nm data w) = validate_importer_payload acts
             \<and> committed (snd (process_excel env cfg edb nm data w)) = committed w)
     \<and> (\<forall>env cfg edb nm data w r w'.
           process_excel env cfg edb nm data w = (r, w') \<longrightarrow>
             (r \<noteq> None \<and> committed w' = committed w)
             \<or> (r = None \<and> (\<exists>acts'. committed w' = committed w @ [acts']
                                    \<and> validate_importer_payload acts' = None)))
     \<and> (\<forall>pre post epre epost x y.
           acts = pre @ a # post \<and> validate_importer_payload pre = None
           \<and> exchanges a = epre @ PDict d # epost \<and> validate_exchanges (PStr db, PStr c) epre = None
           \<and> is_number (dict_get d ''amount'')
           \<and> dict_get d ''input'' = PTuple [PStr x, PStr y] \<and> x \<noteq> [] \<and> y \<noteq> []
           \<longrightarrow> validate_importer_payload acts
                 = Some (ProductionMismatch (PStr db, PStr c) (PTuple [PStr x, PStr y]) (PDict d)))"
proof (intro conjI allI impI)
  have "validate_exchange (PStr db, PStr c) (PDict d) \<noteq> None"
    using assms(3-6) by (intro validate_exchange_production_rejected) simp_all
  then have "validate_exchanges (PStr db, PStr c) (exchanges a) \<noteq> None"
    using assms(8) by (metis validate_exchanges_None_iff)
  then show rej: "validate_importer_payload acts \<noteq> None"
    using assms(1,2,7) by (metis validate_payload_None_iff)
  {
    fix env cfg edb nm data w w1
    assume rl: "relink_payload env cfg edb nm data w = (Inr acts, w1)"
    show "fst (process_excel env cfg edb nm data w) = validate_importer_payload acts"
      using process_excel_after_relink[OF rl] rej by blast
    show "committed (snd (process_excel env cfg edb nm data w)) = committed w"
      using process_excel_after_relink[OF rl] rej by blast
  }
  {
    fix env cfg edb nm data w r w'
    assume pe: "process_excel env cfg edb nm data w = (r, w')"
    show "(r \<noteq> None \<and> committed w' = committed w)
             \<or> (r = None \<and> (\<exists>acts'. committed w' = committed w @ [acts']
                                    \<and> validate_importer_payload acts' = None))"
      by (rule process_excel_commit[OF pe])
  }
  {
    fix pre post epre epost x y
    assume h: "acts = pre @ a # post \<and> validate_importer_payload pre = None
           \<and> exchanges a = epre @ PDict d # epost \<and> validate_exchanges (PStr db, PStr c) epre = None
           \<and> is_number (dict_get d ''amount'')
           \<and> dict_get d ''input'' = PTuple [PStr x, PStr y] \<and> x \<noteq> [] \<and> y \<noteq> []"
    then have "(x, y) \<noteq> (db, c)" using assms(6) by auto
    then have "validate_exchange (PStr db, PStr c) (PDict d)
         = Some (ProductionMismatch (PStr db, PStr c) (PTuple [PStr x, PStr y]) (PDict d))"
      using h assms(3,4,5) by (intro validate_exchange_production_mismatch) simp_all
    then have "validate_exchanges (PStr db, PStr c) (exchanges a)
         = Some (ProductionMismatch (PStr db, PStr c) (PTuple [PStr x, PStr y]) (PDict d))"
      using h by (simp add: validate_exchanges_append)
    then show "validate_importer_payload acts
         = Some (ProductionMismatch (PStr db, PStr c) (PTuple [PStr x, PStr y]) (PDict d))"
      using h assms(1,2) by (simp add: validate_payload_append)
  }
qed

text \<open>
  C10. When the owning dataset's \<^verbatim>\<open>database\<close> or \<^verbatim>\<open>code\<close> is absent, not a string
  or empty, the production self-reference check is skipped: a production exchange with a
  numeric amount and any reference made of two non-empty strings passes validation, a
  dataset holding only this exchange validates, and no exchange of such a dataset ever
  raises \<open>ProductionMismatch\<close>.
\<close>

theorem production_check_skipped_without_identity:
  assumes "\<not> (nonempty_str (dict_get (attrs act) ''database'') \<and> nonempty_str (dict_get (attrs act) ''code''))"
    and "dict_get d ''type'' = PStr ''production''"
    and "is_number (dict_get d ''amount'')"
    and "dict_get d ''input'' = PTuple [PStr x, PStr y]" and "x \<noteq> []" and "y \<noteq> []"
  shows "validate_exchange (dict_get (attrs act) ''database'', dict_get (attrs act) ''code'') (PDict d) = None
     \<and> (exchanges act = [PDict d] \<longrightarrow> validate_importer_payload [act] = None)
     \<and> (\<forall>exc ctx inp e.
           validate_exchange (dict_get (attrs act) ''database'', dict_get (attrs act) ''code'') exc
           \<noteq> Some (ProductionMismatch ctx inp e))"
proof -
  have 1: "validate_exchange (dict_get (attrs act) ''database'', dict_get (attrs act) ''code'') (PDict d) = None"
    using assms by (intro validate_exchange_skips_production_check) simp_all
  then have 2: "exchanges act = [PDict d] \<longrightarrow> validate_importer_payload [act] = None"
    by simp
  show ?thesis
    using 1 2 validate_exchange_never_mismatch[OF assms(1)] by blast
qed


text \<open>
  The amended C4 at concrete amounts: 3, NaN, the string \<open>1.0\<close>, and exchanges with the
  amounts 1.5, NaN and infinity.
\<close>

theorem amount_accepted_iff_not_nan_witness:
  "is_number (PInt 3) \<and> \<not> is_number (PFloat FNaN) \<and> \<not> is_number (PStr ''1.0'')
   \<and> validate_exchange (PStr ''m1'', PStr ''p1'') (PDict (exc_amount (PFloat (FFinite 3 (-1))))) = None
   \<and> validate_exchange (PStr ''m1'', PStr ''p1'') (PDict (exc_amount (PFloat (FInf True)))) = None
   \<and> validate_exchange (PStr ''m1'', PStr ''p1'') (PDict (exc_amount (PFloat FNaN)))
       = Some (NonNumericAmount (PStr ''m1'', PStr ''p1'') (PDict (exc_amount (PFloat FNaN))))"
proof -
  define ok where "ok = exc_amount (PFloat (FFinite 3 (-1)))"
  define inf where "inf = exc_amount (PFloat (FInf True))"
  define nan where "nan = exc_amount (PFloat FNaN)"
  define ctx where "ctx = (PStr ''m1'', PStr ''p1'')"
  define bio where "bio = ''biosphere3''"
  define abc where "abc = ''abc''"
  have wf: "dict_get (exc_amount x) ''type'' \<in> {PStr ''production'', PStr ''technosphere'', PStr ''biosphere''}
        \<and> dict_get (exc_amount x) ''input'' = PTuple [PStr bio, PStr abc] \<and> bio \<noteq> [] \<and> abc \<noteq> []
        \<and> (dict_get (exc_amount x) ''type'' = PStr ''production'' \<longrightarrow>
             \<not> (nonempty_str (fst ctx) \<and> nonempty_str (snd ctx)) \<or> (fst ctx = PStr bio \<and> snd ctx = PStr abc))"
    for x
    by (simp add: exc_amount_def dict_get_def bio_def abc_def)
  have am: "dict_get (exc_amount x) ''amount'' = x" for x
    by (simp add: exc_amount_def dict_get_def)
  have h: "dict_has nan ''type'' \<and> dict_has nan ''amount'' \<and> dict_has nan ''input''
    \<and> dict_get nan ''type'' \<in> {PStr ''production'', PStr ''technosphere'', PStr ''biosphere''}"
    by (simp add: nan_def exc_amount_def dict_has_def dict_get_def)
  note acc = amount_accepted_iff_not_nan[THEN conjunct2, THEN conjunct2, THEN conjunct2,
      THEN conjunct2, THEN conjunct2, THEN conjunct2, THEN conjunct2, rule_format]
  have 1: "is_number (PInt 3)"
    using amount_accepted_iff_not_nan[where x = "PInt 3"] by simp
  have 2: "\<not> is_number (PFloat FNaN)"
    using amount_accepted_iff_not_nan[where x = "PFloat FNaN"] by simp
  have 3: "\<not> is_number (PStr ''1.0'')"
    using amount_accepted_iff_not_nan[where x = "PStr ''1.0''"] by simp
  have fin: "is_number (PFloat (FFinite 3 (-1)))"
    using amount_accepted_iff_not_nan[where x = "PFloat (FFinite 3 (-1))"] by simp
  have infn: "is_number (PFloat (FInf True))"
    by (rule amount_accepted_iff_not_nan[where neg = True, THEN conjunct2, THEN conjunct2, THEN conjunct1])
  have 4: "validate_exchange ctx (PDict ok) = None"
    using acc[where d = ok and a = bio and b = abc and ctx = ctx, OF wf[of "PFloat (FFinite 3 (-1))", folded ok_def]] fin
    by (simp add: ok_def am)
  have 5: "validate_exchange ctx (PDict inf) = None"
    using acc[where d = inf and a = bio and b = abc and ctx = ctx, OF wf[of "PFloat (FInf True)", folded inf_def]] infn
    by (simp add: inf_def am)
  have 6: "validate_exchange ctx (PDict nan) = Some (NonNumericAmount ctx (PDict nan))"
    using amount_accepted_iff_not_nan[where d = nan and ctx = ctx, THEN conjunct2, THEN conjunct2,
        THEN conjunct2, THEN conjunct2, THEN conjunct2, THEN conjunct1] h 2
    by (simp add: nan_def am)
  show ?thesis
    using 1 2 3 4 5 6 unfolding ok_def inf_def nan_def ctx_def by simp
qed

text \<open>
  C2, as stated, fails: the dataset \<open>(m1, p1)\<close> owns a production exchange that points
  to \<open>(m1, p2)\<close>, but the batch starts with a dataset \<open>(m0, p0)\<close> whose exchange has
  the amount NaN. Validation stops there: the error raised names \<open>(m0, p0)\<close> and its
  exchange, and neither the dataset \<open>(m1, p1)\<close> nor the reference \<open>(m1, p2)\<close>.
\<close>

theorem production_mismatch_error_counterexample:
  "validate_importer_payload [dataset_m0_p0, dataset_m1_p1]
   = Some (NonNumericAmount (PStr ''m0'', PStr ''p0'') (PDict (exc_amount (PFloat FNaN))))"
  by (simp add: dataset_m0_p0_def exc_amount_def validate_exchange_def dict_has_def dict_get_def
      is_number_def)

text \<open>
  The amended C2 on scenario 4 of the specification: the dataset \<open>(m1, p1)\<close> with a
  production exchange that points to \<open>(m1, p2)\<close>, validated alone and processed in a
  fresh project, where it reaches validation unchanged.
\<close>

theorem production_mismatch_rejected_before_commit_witness:
  "validate_importer_payload [dataset_m1_p1]
   = Some (ProductionMismatch (PStr ''m1'', PStr ''p1'') (PTuple [PStr ''m1'', PStr ''p2''])
            (PDict exc_production_p2))
   \<and> fst (process_excel sample_env CFG ''ecoinvent-3.10-cutoff'' Map.empty
            [dataset_m1_p1] fresh_project)
     = Some (ProductionMismatch (PStr ''m1'', PStr ''p1'') (PTuple [PStr ''m1'', PStr ''p2''])
              (PDict exc_production_p2))
   \<and> committed (snd (process_excel sample_env CFG ''ecoinvent-3.10-cutoff'' Map.empty
                       [dataset_m1_p1] fresh_project)) = []"
proof -
  define a where "a = dataset_m1_p1"
  define d where "d = exc_production_p2"
  define m1 where "m1 = ''m1''"
  define p1 where "p1 = ''p1''"
  define p2 where "p2 = ''p2''"
  define edb where "edb = ''ecoinvent-3.10-cutoff''"
  define nm where "nm = (Map.empty :: string \<rightharpoonup> string)"
  have h: "dict_get (attrs a) ''database'' = PStr m1" "dict_get (attrs a) ''code'' = PStr p1"
    "m1 \<noteq> []" "p1 \<noteq> []" "dict_get d ''type'' = PStr ''production''"
    "dict_get d ''input'' \<noteq> PTuple [PStr m1, PStr p1]" "a \<in> set [a]" "PDict d \<in> set (exchanges a)"
    by (simp_all add: a_def d_def m1_def p1_def dataset_m1_p1_def exc_production_p2_def dict_get_def)
  note t = production_mismatch_rejected_before_commit[OF h]
  have g: "[a] = [] @ a # [] \<and> validate_importer_payload [] = None
           \<and> exchanges a = [] @ PDict d # [] \<and> validate_exchanges (PStr m1, PStr p1) [] = None
           \<and> is_number (dict_get d ''amount'')
           \<and> dict_get d ''input'' = PTuple [PStr m1, PStr p2] \<and> m1 \<noteq> [] \<and> p2 \<noteq> []"
    by (simp add: a_def d_def m1_def p2_def dataset_m1_p1_def exc_production_p2_def dict_get_def
        is_number_def)
  have r1: "validate_importer_payload [a]
      = Some (ProductionMismatch (PStr m1, PStr p1) (PTuple [PStr m1, PStr p2]) (PDict d))"
    using g by (rule t[THEN conjunct2, THEN conjunct2, THEN conjunct2, rule_format])
  have "fst (relink_payload sample_env CFG edb nm [a] fresh_project) = Inr [a]"
    unfolding a_def edb_def nm_def by code_simp
  then have rl: "relink_payload sample_env CFG edb nm [a] fresh_project
                 = (Inr [a], snd (relink_payload sample_env CFG edb nm [a] fresh_project))"
    by (metis prod.collapse)
  note run = t[THEN conjunct2, THEN conjunct1, rule_format, OF rl]
  have r2: "fst (process_excel sample_env CFG edb nm [a] fresh_project)
      = Some (ProductionMismatch (PStr m1, PStr p1) (PTuple [PStr m1, PStr p2]) (PDict d))"
    using run r1 by simp
  have r3: "committed (snd (process_excel sample_env CFG edb nm [a] fresh_project)) = []"
    using run by (simp add: fresh_project_def)
  show ?thesis
    using r1 r2 r3 unfolding a_def d_def m1_def p1_def p2_def edb_def nm_def by simp
qed

text \<open>
  C10 on a dataset whose code is the empty string: its production exchange points to
  \<open>(m1, p2)\<close> and the batch validates.
\<close>

theorem production_check_skipped_without_identity_witness:
  "validate_importer_payload [dataset_m1_nocode] = None"
proof -
  have "exchanges dataset_m1_nocode = [PDict exc_production_p2]
        \<longrightarrow> validate_importer_payload [dataset_m1_nocode] = None"
    using production_check_skipped_without_identity
      [of dataset_m1_nocode exc_production_p2 "''m1''" "''p2''"]
    by (simp add: dataset_m1_nocode_def exc_production_p2_def dict_get_def is_number_def)
  then show ?thesis by (simp add: dataset_m1_nocode_def)
qed

section \<open>Properties of the exact biosphere index\<close>

lemma fold_index_step:
  assumes "\<And>f m. step f m = (if P f then m(fst (e f) \<mapsto> snd (e f)) else m)"
  shows "fold step fs m = m ++ map_of (rev (map e (filter P fs)))"
proof (induction fs arbitrary: m)
  case Nil
  then show ?case by simp
next
  case (Cons f fs)
  let ?X = "map_of (rev (map e (filter P fs)))"
  have unfold: "fold step (f # fs) m = step f m ++ ?X"
    using Cons.IH[of "step f m"] by simp
  show ?case
  proof (cases "P f")
    case True
    have "step f m = m ++ map_of [e f]"
      unfolding assms using True by (cases "e f") simp
    moreover have "map_of (rev (map e (filter P (f # fs)))) = map_of [e f] ++ ?X"
      using True by simp
    ultimately show ?thesis
      unfolding unfold by (simp only: map_add_assoc)
  next
    case False
    have "step f m = m"
      unfolding assms using False by simp
    then show ?thesis
      unfolding unfold using False by simp
  qed
qed

lemma exact_index_of_map_of:
  "exact_index_of env db_name flows
   = map_of (rev (map (flow_entry env db_name) (filter flow_indexable flows)))"
proof -
  have "exact_index_of env db_name flows
        = Map.empty ++ map_of (rev (map (flow_entry env db_name) (filter flow_indexable flows)))"
    unfolding exact_index_of_def
    by (rule fold_index_step)
       (simp add: Let_def flow_indexable_def flow_entry_def flow_exact_key_def)
  then show ?thesis by simp
qed

lemma exact_index_of_Some:
  assumes "exact_index_of env db_name flows k = Some v"
  shows "\<exists>f\<in>set flows. flow_indexable f \<and> flow_exact_key env f = k
                        \<and> v = (db_name, str_of (dict_get f ''code''))"
proof -
  have "(k, v) \<in> set (rev (map (flow_entry env db_name) (filter flow_indexable flows)))"
    using assms unfolding exact_index_of_map_of by (rule map_of_SomeD)
  then show ?thesis by (auto simp: flow_entry_def)
qed

lemma exact_index_of_dom:
  "dom (exact_index_of env db_name flows) = flow_exact_key env ` {f \<in> set flows. flow_indexable f}"
  unfolding exact_index_of_map_of dom_map_of_conv_image_fst
  by (auto simp: flow_entry_def image_iff)

lemma exact_index_of_skip:
  "\<not> flow_indexable f \<Longrightarrow>
   exact_index_of env db_name (xs @ f # ys) = exact_index_of env db_name (xs @ ys)"
  by (simp add: exact_index_of_map_of)

lemma exact_index_of_perm:
  assumes "mset flows' = mset flows"
    and "distinct (map (flow_exact_key env) (filter flow_indexable flows))"
  shows "exact_index_of env db_name flows' = exact_index_of env db_name flows"
proof -
  let ?l = "\<lambda>fs. rev (map (flow_entry env db_name) (filter flow_indexable fs))"
  have fst: "map fst (?l fs) = rev (map (flow_exact_key env) (filter flow_indexable fs))" for fs
    by (simp add: rev_map flow_entry_def comp_def)
  have m: "mset (map (flow_exact_key env) (filter flow_indexable flows'))
         = mset (map (flow_exact_key env) (filter flow_indexable flows))"
    using assms(1) by (metis mset_filter mset_map)
  have d: "distinct (map fst (?l flows))" using assms(2) by (simp add: fst)
  have "distinct (map (flow_exact_key env) (filter flow_indexable flows'))"
    using assms(2) mset_eq_imp_distinct_iff[OF m] by simp
  then have d': "distinct (map fst (?l flows'))" by (simp add: fst)
  have "set flows' = set flows" using assms(1) by (rule mset_eq_setD)
  then have "set (?l flows') = set (?l flows)" by simp
  then show ?thesis
    unfolding exact_index_of_map_of using map_of_inject_set[OF d' d] by simp
qed


text \<open>
  C6, as stated, fails: a flow without a \<^verbatim>\<open>categories\<close> entry is not skipped. It is
  indexed under the empty category tuple.
\<close>

theorem exact_index_missing_categories_counterexample:
  "\<not> carries_required_fields flow_co2_no_categories
   \<and> exact_index_of sample_env ''biosphere3'' [flow_co2_no_categories] (''carbon dioxide'', [], ''kg'')
     = Some (''biosphere3'', ''abc'')"
  by code_simp

text \<open>
  C6, amended. The exact index holds an entry only for flows whose name and unit are
  strings and whose code is a non-empty string: every entry comes from such a flow, a flow
  failing the test contributes nothing wherever it stands in the collection, and the keys
  of the index are exactly the keys of the flows that pass it. Categories are not required.
\<close>

theorem exact_index_only_indexable_flows:
  "(exact_index_of env db_name flows k = Some v \<longrightarrow>
      (\<exists>f\<in>set flows. flow_indexable f \<and> flow_exact_key env f = k
                       \<and> v = (db_name, str_of (dict_get f ''code''))))
   \<and> (\<not> flow_indexable f \<longrightarrow>
        exact_index_of env db_name (xs @ f # ys) = exact_index_of env db_name (xs @ ys))
   \<and> dom (exact_index_of env db_name flows) = flow_exact_key env ` {f \<in> set flows. flow_indexable f}
   \<and> dom (build_biosphere_exact_index env w db_name)
       = flow_exact_key env ` {f \<in> set (db_activities w db_name). flow_indexable f}"
  using exact_index_of_Some[of env db_name flows k v] exact_index_of_skip[of f env db_name xs ys]
    exact_index_of_dom[of env db_name flows] exact_index_of_dom[of env db_name "db_activities w db_name"]
  unfolding build_biosphere_exact_index_def by blast

text \<open>
  The amended C6 on a collection with a flow that has no unit: the index is the one built
  without it.
\<close>

theorem exact_index_only_indexable_flows_witness:
  "exact_index_of sample_env ''biosphere3'' ([flow_co2_air] @ flow_no_unit # [flow_co2_water])
   = exact_index_of sample_env ''biosphere3'' ([flow_co2_air] @ [flow_co2_water])"
proof -
  have "\<not> flow_indexable flow_no_unit"
    by (simp add: flow_indexable_def flow_no_unit_def dict_get_def)
  then show ?thesis
    using exact_index_only_indexable_flows
      [of sample_env "''biosphere3''" "[]" "([], [], [])" "(''x'', ''y'')" flow_no_unit
          "[flow_co2_air]" "[flow_co2_water]" fresh_project]
    by blast
qed

text \<open>
  C7. If the flows that are indexed have pairwise different normalized (name, categories,
  unit) keys, then the exact index built from any reordering of the collection is the same
  map, for the flows given as a list and for a database of the project; hence resolving
  any exchange against the two indices gives the same result.
\<close>

theorem exact_resolution_order_independent:
  assumes "mset flows' = mset flows"
    and "distinct (map (flow_exact_key env) (filter flow_indexable flows))"
  shows "exact_index_of env db_name flows' = exact_index_of env db_name flows
     \<and> (db_activities w' db_name = flows' \<and> db_activities w db_name = flows \<longrightarrow>
          build_biosphere_exact_index env w' db_name = build_biosphere_exact_index env w db_name)
     \<and> bio_exchange env cfg (exact_index_of env db_name flows') name_idx name_map st exc
       = bio_exchange env cfg (exact_index_of env db_name flows) name_idx name_map st exc"
  using exact_index_of_perm[OF assms, of db_name]
  by (simp add: build_biosphere_exact_index_def)

text \<open>
  C7 on two orderings of three flows, with the lookup of scenario 1 of the specification.
\<close>

theorem exact_resolution_order_independent_witness:
  "exact_index_of sample_env ''biosphere3'' [flow_co2_water, flow_no_unit, flow_co2_air]
   = exact_index_of sample_env ''biosphere3'' [flow_co2_air, flow_co2_water, flow_no_unit]
   \<and> exact_index_of sample_env ''biosphere3'' [flow_co2_water, flow_no_unit, flow_co2_air]
        (''carbon dioxide'', [''air''], ''kg'') = Some (''biosphere3'', ''abc'')"
proof -
  have m: "mset [flow_co2_water, flow_no_unit, flow_co2_air]
           = mset [flow_co2_air, flow_co2_water, flow_no_unit]"
    by (simp add: add_mset_commute)
  have d: "distinct (map (flow_exact_key sample_env)
             (filter flow_indexable [flow_co2_air, flow_co2_water, flow_no_unit]))"
    by code_simp
  have l: "exact_index_of sample_env ''biosphere3'' [flow_co2_water, flow_no_unit, flow_co2_air]
        (''carbon dioxide'', [''air''], ''kg'') = Some (''biosphere3'', ''abc'')"
    by code_simp
  show ?thesis
    using exact_resolution_order_independent[OF m d, THEN conjunct1, of "''biosphere3''"] l
    by (rule conjI)
qed

section \<open>Properties of the name-only stage\<close>

lemma c_unit_eq:
  "(if filter (\<lambda>c. snd (snd (snd c)) = unit_n) cands \<noteq> []
    then filter (\<lambda>c. snd (snd (snd c)) = unit_n) cands else cands) = unit_filtered cands unit_n"
  by (auto simp: unit_filtered_def cand_unit_def filter_empty_conv)

lemma c_tc_eq:
  "filter (\<lambda>c. length (fst (snd (snd c))) \<ge> 1 \<and> fst (snd (snd c)) ! 0 = tc) cs = top_matching tc cs"
proof -
  have "(length xs \<ge> 1 \<and> xs ! 0 = tc) = (xs \<noteq> [] \<and> hd xs = tc)" for xs :: "string list"
    by (cases xs) auto
  then show ?thesis by (simp add: top_matching_def cand_cats_def)
qed

lemma unit_filtered_nonempty: "cands \<noteq> [] \<Longrightarrow> unit_filtered cands unit_n \<noteq> []"
  by (auto simp: unit_filtered_def filter_empty_conv)

lemma unit_filtered_Nil: "unit_filtered [] unit_n = []"
  by (simp add: unit_filtered_def)

lemma choose_alt:
  "choose_best_candidate cands unit_n tcomp =
     (let U = unit_filtered cands unit_n;
          fallthrough = (case U of [c] \<Rightarrow> Some (cand_key c) | _ \<Rightarrow> None)
      in case tcomp of
           None \<Rightarrow> fallthrough
         | Some t \<Rightarrow>
             if t = [] then fallthrough
             else (case top_matching (norm t) U of
                     [] \<Rightarrow> fallthrough
                   | [c] \<Rightarrow> Some (cand_key c)
                   | _ \<Rightarrow> None))"
proof -
  have one: "(if length xs = 1 then Some (fst (xs ! 0), fst (snd (xs ! 0))) else None)
             = (case xs of [c] \<Rightarrow> Some (cand_key c) | _ \<Rightarrow> None)" for xs :: "candidate list"
    by (cases xs rule: remdups_adj.cases) (simp_all add: cand_key_def)
  have three: "(if length xs = 1 then Some (fst (xs ! 0), fst (snd (xs ! 0)))
                else if length xs > 1 then None else r)
             = (case xs of [] \<Rightarrow> r | [c] \<Rightarrow> Some (cand_key c) | _ \<Rightarrow> None)"
    for xs :: "candidate list" and r
    by (cases xs rule: remdups_adj.cases) (simp_all add: cand_key_def)
  show ?thesis
  proof (cases "cands = []")
    case True
    then show ?thesis
      by (simp add: choose_best_candidate_def unit_filtered_Nil top_matching_def split: option.splits)
  next
    case False
    then show ?thesis
      unfolding choose_best_candidate_def Let_def c_unit_eq c_tc_eq one three
      by (simp split: option.splits)
  qed
qed


lemma fold_name_step:
  assumes "\<And>f m. step f m = (if P f then m(k f \<mapsto> (case m (k f) of None \<Rightarrow> [] | Some l \<Rightarrow> l) @ [c f]) else m)"
  shows "fold step fs m n =
     (if filter (\<lambda>f. P f \<and> k f = n) fs = [] then m n
      else Some ((case m n of None \<Rightarrow> [] | Some l \<Rightarrow> l) @ map c (filter (\<lambda>f. P f \<and> k f = n) fs)))"
proof (induction fs arbitrary: m)
  case Nil
  then show ?case by simp
next
  case (Cons f fs)
  have unfold: "fold step (f # fs) m n = fold step fs (step f m) n" by simp
  show ?case
    unfolding unfold Cons.IH
    by (cases "P f"; cases "k f = n") (simp_all add: assms)
qed

lemma build_name_index_eq:
  "build_name_index env w db n =
     (if filter (\<lambda>f. flow_indexable f \<and> norm (str_of (dict_get f ''name'')) = n) (db_activities w db) = []
      then None
      else Some (map (flow_candidate env db)
                   (filter (\<lambda>f. flow_indexable f \<and> norm (str_of (dict_get f ''name'')) = n)
                      (db_activities w db))))"
proof -
  have "build_name_index env w db n =
     (if filter (\<lambda>f. flow_indexable f \<and> norm (str_of (dict_get f ''name'')) = n) (db_activities w db) = []
      then Map.empty n
      else Some ((case Map.empty n of None \<Rightarrow> [] | Some l \<Rightarrow> l)
                 @ map (flow_candidate env db)
                     (filter (\<lambda>f. flow_indexable f \<and> norm (str_of (dict_get f ''name'')) = n)
                        (db_activities w db))))"
    unfolding build_name_index_def
    by (rule fold_name_step) (simp add: Let_def flow_indexable_def flow_candidate_def)
  then show ?thesis by simp
qed

lemma two_flows_unresolved:
  assumes "filter (\<lambda>f. flow_indexable f \<and> norm (str_of (dict_get f ''name'')) = norm mapped_name)
             (db_activities w db) = [f1, f2]"
    and "norm (str_of (dict_get f1 ''unit'')) = norm (str_of (dict_get f2 ''unit''))"
    and "dict_get f1 ''code'' \<noteq> dict_get f2 ''code''"
  shows "candidates_for_name (build_name_index env w db) mapped_name
           = [flow_candidate env db f1, flow_candidate env db f2]
     \<and> choose_best_candidate (candidates_for_name (build_name_index env w db) mapped_name) unit_n None
       = None"
proof -
  have "f1 \<in> set (filter (\<lambda>f. flow_indexable f \<and> norm (str_of (dict_get f ''name'')) = norm mapped_name)
             (db_activities w db))"
       "f2 \<in> set (filter (\<lambda>f. flow_indexable f \<and> norm (str_of (dict_get f ''name'')) = norm mapped_name)
             (db_activities w db))"
    unfolding assms(1) by simp_all
  then have "nonempty_str (dict_get f1 ''code'')" "nonempty_str (dict_get f2 ''code'')"
    by (simp_all add: flow_indexable_def)
  then have codes: "str_of (dict_get f1 ''code'') \<noteq> str_of (dict_get f2 ''code'')"
    using assms(3) by (cases "dict_get f1 ''code''"; cases "dict_get f2 ''code''") simp_all
  have idx: "build_name_index env w db (norm mapped_name)
             = Some [flow_candidate env db f1, flow_candidate env db f2]"
    unfolding build_name_index_eq assms(1) by simp
  have cands: "candidates_for_name (build_name_index env w db) mapped_name
           = [flow_candidate env db f1, flow_candidate env db f2]"
    using codes
    by (simp add: candidates_for_name_def BIO_NAME_ALIASES_def idx Let_def flow_candidate_def)
  have "unit_filtered [flow_candidate env db f1, flow_candidate env db f2] unit_n
        = [flow_candidate env db f1, flow_candidate env db f2]"
    using assms(2) by (simp add: unit_filtered_def cand_unit_def flow_candidate_def)
  then have "choose_best_candidate [flow_candidate env db f1, flow_candidate env db f2] unit_n None = None"
    by (simp add: choose_alt)
  then show ?thesis using cands by simp
qed

text \<open>
  C1. \<open>choose_best_candidate\<close> first filters by unit, falling back to all candidates.
  A top-level category is supplied when the compartment is a non-empty string; it is
  compared in normalized form. If exactly one unit-filtered candidate has it as first
  category, that candidate is chosen; if more than one has, nothing is chosen. With no
  top-level category, or with none matching, a candidate is chosen only if exactly one
  remains after the unit filter. In particular, if the indexed flows with the looked-up
  name are two flows with the same normalized unit and different codes, an exchange
  without category hint gets no selection at stage C, whatever its unit and whatever the
  compartments of the two flows.
\<close>

theorem stage_c_conservative:
  "(t \<noteq> [] \<and> top_matching (norm t) (unit_filtered cands unit_n) = [c]
      \<longrightarrow> choose_best_candidate cands unit_n (Some t) = Some (cand_key c))
   \<and> (t \<noteq> [] \<and> length (top_matching (norm t) (unit_filtered cands unit_n)) > 1
      \<longrightarrow> choose_best_candidate cands unit_n (Some t) = None)
   \<and> (tcomp = None \<or> tcomp = Some [] \<or> (\<exists>t. tcomp = Some t \<and> top_matching (norm t) (unit_filtered cands unit_n) = [])
      \<longrightarrow> choose_best_candidate cands unit_n tcomp
          = (case unit_filtered cands unit_n of [c] \<Rightarrow> Some (cand_key c) | _ \<Rightarrow> None))
   \<and> (filter (\<lambda>f. flow_indexable f \<and> norm (str_of (dict_get f ''name'')) = norm mapped_name)
         (db_activities w db) = [f1, f2]
       \<and> norm (str_of (dict_get f1 ''unit'')) = norm (str_of (dict_get f2 ''unit''))
       \<and> dict_get f1 ''code'' \<noteq> dict_get f2 ''code''
      \<longrightarrow> choose_best_candidate (candidates_for_name (build_name_index env w db) mapped_name) u None
          = None)"
proof (intro conjI impI)
  assume "t \<noteq> [] \<and> top_matching (norm t) (unit_filtered cands unit_n) = [c]"
  then show "choose_best_candidate cands unit_n (Some t) = Some (cand_key c)"
    by (simp add: choose_alt)
next
  assume "t \<noteq> [] \<and> length (top_matching (norm t) (unit_filtered cands unit_n)) > 1"
  then show "choose_best_candidate cands unit_n (Some t) = None"
    by (cases "top_matching (norm t) (unit_filtered cands unit_n)" rule: remdups_adj.cases)
       (simp_all add: choose_alt)
next
  assume "tcomp = None \<or> tcomp = Some [] \<or>
          (\<exists>t. tcomp = Some t \<and> top_matching (norm t) (unit_filtered cands unit_n) = [])"
  then show "choose_best_candidate cands unit_n tcomp
          = (case unit_filtered cands unit_n of [c] \<Rightarrow> Some (cand_key c) | _ \<Rightarrow> None)"
    by (auto simp: choose_alt Let_def)
next
  assume "filter (\<lambda>f. flow_indexable f \<and> norm (str_of (dict_get f ''name'')) = norm mapped_name)
         (db_activities w db) = [f1, f2]
       \<and> norm (str_of (dict_get f1 ''unit'')) = norm (str_of (dict_get f2 ''unit''))
       \<and> dict_get f1 ''code'' \<noteq> dict_get f2 ''code''"
  then show "choose_best_candidate (candidates_for_name (build_name_index env w db) mapped_name) u None
          = None"
    using two_flows_unresolved by blast
qed


text \<open>
  C1 on carbon dioxide to air and to water: the hint \<open>Air\<close> selects the first flow, and
  an exchange without categories selects none.
\<close>

theorem stage_c_conservative_witness:
  "choose_best_candidate
     [flow_candidate sample_env ''biosphere3'' flow_co2_air,
      flow_candidate sample_env ''biosphere3'' flow_co2_water] ''kg'' (Some ''Air'')
   = Some (''biosphere3'', ''abc'')
   \<and> choose_best_candidate
       (candidates_for_name (build_name_index sample_env project_co2 ''biosphere3'') ''Carbon dioxide'')
       ''kg'' None
     = None"
proof -
  define cands where "cands = [flow_candidate sample_env ''biosphere3'' flow_co2_air,
      flow_candidate sample_env ''biosphere3'' flow_co2_water]"
  have ne: "''Air'' \<noteq> []" by simp
  have tm: "top_matching (norm ''Air'') (unit_filtered cands ''kg'')
            = [flow_candidate sample_env ''biosphere3'' flow_co2_air]"
    unfolding cands_def by code_simp
  have k: "cand_key (flow_candidate sample_env ''biosphere3'' flow_co2_air) = (''biosphere3'', ''abc'')"
    by code_simp
  have fl: "filter (\<lambda>f. flow_indexable f \<and> norm (str_of (dict_get f ''name'')) = norm ''Carbon dioxide'')
              (db_activities project_co2 ''biosphere3'') = [flow_co2_air, flow_co2_water]"
    by code_simp
  have un: "norm (str_of (dict_get flow_co2_air ''unit'')) = norm (str_of (dict_get flow_co2_water ''unit''))"
    by code_simp
  have co: "dict_get flow_co2_air ''code'' \<noteq> dict_get flow_co2_water ''code''"
    by code_simp
  note t = stage_c_conservative[where t = "''Air''" and cands = cands and unit_n = "''kg''"
      and c = "flow_candidate sample_env ''biosphere3'' flow_co2_air"
      and mapped_name = "''Carbon dioxide''" and w = project_co2 and db = "''biosphere3''"
      and ?f1.0 = flow_co2_air and ?f2.0 = flow_co2_water and env = sample_env and u = "''kg''"]
  have "choose_best_candidate cands ''kg'' (Some ''Air'') = Some (''biosphere3'', ''abc'')"
    using t[THEN conjunct1] ne tm k by simp
  moreover have "choose_best_candidate
       (candidates_for_name (build_name_index sample_env project_co2 ''biosphere3'') ''Carbon dioxide'')
       ''kg'' None = None"
    using t[THEN conjunct2, THEN conjunct2, THEN conjunct2] fl un co by blast
  ultimately show ?thesis unfolding cands_def by (rule conjI)
qed

section \<open>Properties of the synthetic flow factory and of the technosphere pass\<close>

lemma ensure_idem:
  "ensure_custom_biosphere_db db (ensure_custom_biosphere_db db w) = ensure_custom_biosphere_db db w"
  by (simp add: ensure_custom_biosphere_db_def)

lemma db_load_ensure:
  "db_load (ensure_custom_biosphere_db db w) db = db_load w db"
  by (auto simp: ensure_custom_biosphere_db_def db_load_def split: option.splits)

lemma ensure_db_write:
  "ensure_custom_biosphere_db db (db_write db d w) = db_write db d w"
  by (simp add: ensure_custom_biosphere_db_def db_write_def)

lemma db_load_db_write: "db_load (db_write db d w) db = d"
  by (simp add: db_load_def db_write_def)

lemma get_or_create_key:
  "fst (get_or_create_custom_biosphere_flow env db n c u w) = (db, custom_flow_code env n c u)"
  by (simp add: get_or_create_custom_biosphere_flow_def Let_def)

lemma get_or_create_present:
  "map_of (db_load (snd (get_or_create_custom_biosphere_flow env db n c u w)) db)
     (db, custom_flow_code env n c u) \<noteq> None"
  by (auto simp: get_or_create_custom_biosphere_flow_def Let_def db_load_db_write map_add_def)

lemma get_or_create_again:
  "get_or_create_custom_biosphere_flow env db n c u
     (snd (get_or_create_custom_biosphere_flow env db n c u w))
   = get_or_create_custom_biosphere_flow env db n c u w"
proof (cases "map_of (db_load (ensure_custom_biosphere_db db w) db) (db, custom_flow_code env n c u) = None")
  case True
  then show ?thesis
    by (simp add: get_or_create_custom_biosphere_flow_def Let_def ensure_db_write db_load_db_write)
next
  case False
  then show ?thesis
    by (simp add: get_or_create_custom_biosphere_flow_def Let_def ensure_idem)
qed

lemma get_or_create_length:
  "length (db_load (snd (get_or_create_custom_biosphere_flow env db n c u w)) db)
   \<le> Suc (length (db_load w db))"
  by (simp add: get_or_create_custom_biosphere_flow_def Let_def db_load_db_write db_load_ensure)

lemma get_or_create_existing:
  assumes "map_of (db_load w db) (db, custom_flow_code env n c u) \<noteq> None"
  shows "get_or_create_custom_biosphere_flow env db n c u w = ((db, custom_flow_code env n c u), w)"
proof -
  have "db_load w db \<noteq> []" using assms by auto
  then have "db \<in> dom (dbs w)" by (auto simp: db_load_def split: option.splits)
  then have "ensure_custom_biosphere_db db w = w" by (simp add: ensure_custom_biosphere_db_def)
  then show ?thesis
    using assms by (simp add: get_or_create_custom_biosphere_flow_def Let_def)
qed

lemma db_load_other:
  "db' \<noteq> db \<Longrightarrow>
   db_load (snd (get_or_create_custom_biosphere_flow env db' n c u w)) db = db_load w db"
  by (simp add: get_or_create_custom_biosphere_flow_def Let_def db_load_def db_write_def
      ensure_custom_biosphere_db_def)

lemma get_or_create_new:
  assumes "map_of (db_load w db) (db, custom_flow_code env n c u) = None"
  shows "db_load (snd (get_or_create_custom_biosphere_flow env db n c u w)) db
         = db_load w db @ [((db, custom_flow_code env n c u),
                            [(''name'', PStr n), (''categories'', PTuple (map PStr c)),
                             (''unit'', PStr u), (''type'', PStr ''emission''),
                             (''code'', PStr (custom_flow_code env n c u))])]"
  using assms
  by (simp add: get_or_create_custom_biosphere_flow_def Let_def db_load_db_write db_load_ensure)

lemma get_or_create_same_db:
  "db_load (snd (get_or_create_custom_biosphere_flow env db n c u w)) db = db_load w db
   \<or> (map_of (db_load w db) (db, custom_flow_code env n c u) = None
      \<and> (\<exists>e. db_load (snd (get_or_create_custom_biosphere_flow env db n c u w)) db
                = db_load w db @ [((db, custom_flow_code env n c u), e)]))"
proof (cases "map_of (db_load w db) (db, custom_flow_code env n c u) = None")
  case True
  then show ?thesis using get_or_create_new[OF True] by blast
next
  case False
  then show ?thesis using get_or_create_existing[of w db env n c u] by simp
qed

lemma get_or_create_keeps:
  assumes "map_of (db_load w db) k \<noteq> None"
  shows "map_of (db_load (snd (get_or_create_custom_biosphere_flow env db' n c u w)) db) k \<noteq> None"
proof (cases "db' = db")
  case True
  show ?thesis
    using get_or_create_same_db[of env db n c u w] assms unfolding True
    by (auto simp: map_add_def split: option.splits)
next
  case False
  then show ?thesis using assms by (simp add: db_load_other)
qed

lemma get_or_create_distinct:
  assumes "distinct (map fst (db_load w db))"
  shows "distinct (map fst (db_load (snd (get_or_create_custom_biosphere_flow env db n c u w)) db))"
proof -
  have "map_of xs k = None \<Longrightarrow> k \<notin> set (map fst xs)" for xs :: dbdata and k
    by (simp add: map_of_eq_None_iff)
  then show ?thesis
    using get_or_create_same_db[of env db n c u w] assms by auto
qed

lemma get_or_create_aba:
  "get_or_create_custom_biosphere_flow env db n c u
     (snd (get_or_create_custom_biosphere_flow env db' n' c' u'
        (snd (get_or_create_custom_biosphere_flow env db n c u w))))
   = ((db, custom_flow_code env n c u),
      snd (get_or_create_custom_biosphere_flow env db' n' c' u'
        (snd (get_or_create_custom_biosphere_flow env db n c u w))))"
  by (intro get_or_create_existing get_or_create_keeps get_or_create_present)

text \<open>
  C3. The identifier returned by \<open>get_or_create_custom_biosphere_flow\<close> is the pair of
  the database name and the code, and the code is the digest of \<open>name|categories|unit\<close>
  with the category tuple printed by \<^verbatim>\<open>repr\<close>: a function of the triple alone. Calling
  it a second time with the same triple, on the project the first call left, returns the
  same pair and leaves that project unchanged. More generally, on any project whose store
  holds the flow under this identifier the call returns the identifier and changes
  nothing; a call for any other flow keeps every stored flow; so after calls for A, B and
  A again the last call returns the identifier of the first and creates nothing. When the
  flow is not stored yet, exactly one entry is appended, with the given attributes and the
  type \<open>emission\<close>; a store without duplicate identifiers stays without duplicates.
\<close>

theorem synthetic_flow_stable_idempotent:
  "fst (get_or_create_custom_biosphere_flow env db_name flow_name categories unit w)
     = (db_name, custom_flow_code env flow_name categories unit)
   \<and> get_or_create_custom_biosphere_flow env db_name flow_name categories unit
        (snd (get_or_create_custom_biosphere_flow env db_name flow_name categories unit w))
     = get_or_create_custom_biosphere_flow env db_name flow_name categories unit w
   \<and> map_of (db_load (snd (get_or_create_custom_biosphere_flow env db_name flow_name categories unit w))
               db_name) (db_name, custom_flow_code env flow_name categories unit) \<noteq> None
   \<and> length (db_load (snd (get_or_create_custom_biosphere_flow env db_name flow_name categories unit w))
               db_name) \<le> Suc (length (db_load w db_name))
   \<and> custom_flow_code env flow_name categories unit
     = md5_hexdigest env (flow_name @ ''|'' @ py_repr env (PTuple (map PStr categories)) @ ''|'' @ unit)
   \<and> (map_of (db_load w' db_name) (db_name, custom_flow_code env flow_name categories unit) \<noteq> None
      \<longrightarrow> get_or_create_custom_biosphere_flow env db_name flow_name categories unit w'
          = ((db_name, custom_flow_code env flow_name categories unit), w'))
   \<and> (map_of (db_load w' db_name) k \<noteq> None
      \<longrightarrow> map_of (db_load (snd (get_or_create_custom_biosphere_flow env db_name' flow_name'
                                   categories' unit' w')) db_name) k \<noteq> None)
   \<and> get_or_create_custom_biosphere_flow env db_name flow_name categories unit
        (snd (get_or_create_custom_biosphere_flow env db_name' flow_name' categories' unit'
           (snd (get_or_create_custom_biosphere_flow env db_name flow_name categories unit w))))
     = ((db_name, custom_flow_code env flow_name categories unit),
        snd (get_or_create_custom_biosphere_flow env db_name' flow_name' categories' unit'
           (snd (get_or_create_custom_biosphere_flow env db_name flow_name categories unit w))))
   \<and> (map_of (db_load w db_name) (db_name, custom_flow_code env flow_name categories unit) = None
      \<longrightarrow> db_load (snd (get_or_create_custom_biosphere_flow env db_name flow_name categories unit w))
             db_name
          = db_load w db_name
            @ [((db_name, custom_flow_code env flow_name categories unit),
                [(''name'', PStr flow_name), (''categories'', PTuple (map PStr categories)),
                 (''unit'', PStr unit), (''type'', PStr ''emission''),
                 (''code'', PStr (custom_flow_code env flow_name categories unit))])])
   \<and> (distinct (map fst (db_load w db_name))
      \<longrightarrow> distinct (map fst (db_load (snd (get_or_create_custom_biosphere_flow env db_name flow_name
                                             categories unit w)) db_name)))"
proof (intro conjI impI)
  show "fst (get_or_create_custom_biosphere_flow env db_name flow_name categories unit w)
     = (db_name, custom_flow_code env flow_name categories unit)"
    by (rule get_or_create_key)
  show "get_or_create_custom_biosphere_flow env db_name flow_name categories unit
        (snd (get_or_create_custom_biosphere_flow env db_name flow_name categories unit w))
     = get_or_create_custom_biosphere_flow env db_name flow_name categories unit w"
    by (rule get_or_create_again)
  show "map_of (db_load (snd (get_or_create_custom_biosphere_flow env db_name flow_name categories unit w))
               db_name) (db_name, custom_flow_code env flow_name categories unit) \<noteq> None"
    by (rule get_or_create_present)
  show "length (db_load (snd (get_or_create_custom_biosphere_flow env db_name flow_name categories unit w))
               db_name) \<le> Suc (length (db_load w db_name))"
    by (rule get_or_create_length)
  show "custom_flow_code env flow_name categories unit
     = md5_hexdigest env (flow_name @ ''|'' @ py_repr env (PTuple (map PStr categories)) @ ''|'' @ unit)"
    by (simp add: custom_flow_code_def)
  show "get_or_create_custom_biosphere_flow env db_name flow_name categories unit
        (snd (get_or_create_custom_biosphere_flow env db_name' flow_name' categories' unit'
           (snd (get_or_create_custom_biosphere_flow env db_name flow_name categories unit w))))
     = ((db_name, custom_flow_code env flow_name categories unit),
        snd (get_or_create_custom_biosphere_flow env db_name' flow_name' categories' unit'
           (snd (get_or_create_custom_biosphere_flow env db_name flow_name categories unit w))))"
    by (rule get_or_create_aba)
next
  assume "map_of (db_load w' db_name) (db_name, custom_flow_code env flow_name categories unit) \<noteq> None"
  then show "get_or_create_custom_biosphere_flow env db_name flow_name categories unit w'
          = ((db_name, custom_flow_code env flow_name categories unit), w')"
    by (rule get_or_create_existing)
next
  assume "map_of (db_load w' db_name) k \<noteq> None"
  then show "map_of (db_load (snd (get_or_create_custom_biosphere_flow env db_name' flow_name'
                                   categories' unit' w')) db_name) k \<noteq> None"
    by (rule get_or_create_keeps)
next
  assume "map_of (db_load w db_name) (db_name, custom_flow_code env flow_name categories unit) = None"
  then show "db_load (snd (get_or_create_custom_biosphere_flow env db_name flow_name categories unit w))
             db_name
          = db_load w db_name
            @ [((db_name, custom_flow_code env flow_name categories unit),
                [(''name'', PStr flow_name), (''categories'', PTuple (map PStr categories)),
                 (''unit'', PStr unit), (''type'', PStr ''emission''),
                 (''code'', PStr (custom_flow_code env flow_name categories unit))])]"
    by (rule get_or_create_new)
next
  assume "distinct (map fst (db_load w db_name))"
  then show "distinct (map fst (db_load (snd (get_or_create_custom_biosphere_flow env db_name flow_name
                                             categories unit w)) db_name))"
    by (rule get_or_create_distinct)
qed

text \<open>
  C3 on three calls in a fresh project: the flow \<open>Unknown Pollutant X\<close> to soil, the
  flow \<open>Other\<close> to air, and the first one again. The third call returns the identifier
  of the first, printed here with the identity as digest, and the store holds two flows.
\<close>

theorem synthetic_flow_stable_idempotent_witness:
  "fst (get_or_create_custom_biosphere_flow sample_env ''biosphere_custom'' ''Unknown Pollutant X''
          [''soil''] ''kg'' project_after_two_flows)
     = (''biosphere_custom'', ''Unknown Pollutant X|('' @ [CHR 0x27] @ ''soil'' @ [CHR 0x27] @ '',)|kg'')
   \<and> map fst (db_load (snd (get_or_create_custom_biosphere_flow sample_env ''biosphere_custom''
                              ''Unknown Pollutant X'' [''soil''] ''kg'' project_after_two_flows))
                ''biosphere_custom'')
     = [(''biosphere_custom'', ''Unknown Pollutant X|('' @ [CHR 0x27] @ ''soil'' @ [CHR 0x27] @ '',)|kg''),
        (''biosphere_custom'', ''Other|('' @ [CHR 0x27] @ ''air'' @ [CHR 0x27] @ '',)|kg'')]"
proof -
  define w' where "w' = project_after_two_flows"
  define n where "n = ''Unknown Pollutant X''"
  define c where "c = [''soil'']"
  define db where "db = ''biosphere_custom''"
  define code where "code = ''Unknown Pollutant X|('' @ [CHR 0x27] @ ''soil'' @ [CHR 0x27] @ '',)|kg''"
  have cd: "custom_flow_code sample_env n c ''kg'' = code"
    unfolding n_def c_def code_def by code_simp
  have pres: "map_of (db_load w' db) (db, custom_flow_code sample_env n c ''kg'') \<noteq> None"
    unfolding w'_def db_def n_def c_def by code_simp
  have keys: "map fst (db_load w' db)
     = [(db, code), (''biosphere_custom'', ''Other|('' @ [CHR 0x27] @ ''air'' @ [CHR 0x27] @ '',)|kg'')]"
    unfolding w'_def db_def code_def by code_simp
  have eq: "get_or_create_custom_biosphere_flow sample_env db n c ''kg'' w'
            = ((db, custom_flow_code sample_env n c ''kg''), w')"
    using pres
    by (rule synthetic_flow_stable_idempotent[THEN conjunct2, THEN conjunct2, THEN conjunct2,
          THEN conjunct2, THEN conjunct2, THEN conjunct1, rule_format])
  have 1: "fst (get_or_create_custom_biosphere_flow sample_env db n c ''kg'' w') = (db, code)"
    unfolding eq cd by simp
  have 2: "map fst (db_load (snd (get_or_create_custom_biosphere_flow sample_env db n c ''kg'' w')) db)
     = [(db, code), (''biosphere_custom'', ''Other|('' @ [CHR 0x27] @ ''air'' @ [CHR 0x27] @ '',)|kg'')]"
    unfolding eq using keys by simp
  show ?thesis
    using 1 2 unfolding w'_def n_def c_def db_def code_def by simp
qed

text \<open>
  C5, as stated, fails: for the exchange named \<open>Unknown Pollutant X\<close> with categories
  \<open>["Soil"]\<close> and unit \<open>KG\<close>, the factory is not invoked with those attributes. The
  project after stage D is the one the factory produces for the categories \<open>("soil",)\<close>
  and the unit \<open>kg\<close>, it differs from the one produced for the original attributes, and
  the flow stored has the normalized categories and unit.
\<close>

theorem synthetic_fallback_normalized_counterexample:
  "db_load (fst (snd (bio_exchange sample_env CFG_create Map.empty Map.empty Map.empty
                        (fresh_project, 0) (PDict exc_unknown_pollutant)))) ''biosphere_custom''
   = db_load (snd (get_or_create_custom_biosphere_flow sample_env ''biosphere_custom''
                     ''Unknown Pollutant X'' [''soil''] ''kg'' fresh_project)) ''biosphere_custom''
   \<and> db_load (fst (snd (bio_exchange sample_env CFG_create Map.empty Map.empty Map.empty
                        (fresh_project, 0) (PDict exc_unknown_pollutant)))) ''biosphere_custom''
   \<noteq> db_load (snd (get_or_create_custom_biosphere_flow sample_env ''biosphere_custom''
                     ''Unknown Pollutant X'' [''Soil''] ''KG'' fresh_project)) ''biosphere_custom''
   \<and> map (\<lambda>e. (dict_get (snd e) ''name'', dict_get (snd e) ''categories'', dict_get (snd e) ''unit''))
        (db_load (fst (snd (bio_exchange sample_env CFG_create Map.empty Map.empty Map.empty
                        (fresh_project, 0) (PDict exc_unknown_pollutant)))) ''biosphere_custom'')
     = [(PStr ''Unknown Pollutant X'', PTuple [PStr ''soil''], PStr ''kg'')]"
  by code_simp

lemma bio_exchange_stage_D:
  assumes "dict_get d ''type'' = PStr ''biosphere''" and "\<not> dict_has d ''input''"
    and "dict_get d ''name'' = PStr raw_name" and "dict_get d ''unit'' = PStr unit"
    and "cats_t = cats_tuple env (dict_get d ''categories'')" and "unit_n = norm unit"
    and "mapped_name = (case name_map (norm raw_name) of Some m \<Rightarrow> m | None \<Rightarrow> raw_name)"
    and "exact_idx (norm raw_name, cats_t, unit_n) = None"
    and "exact_idx (norm mapped_name, cats_t, unit_n) = None"
    and "choose_best_candidate (candidates_for_name name_idx mapped_name) unit_n
           (if cats_t \<noteq> [] then Some (cats_t ! 0) else None) = None"
    and "allow_create_missing_biosphere_flows cfg"
  shows "bio_exchange env cfg exact_idx name_idx name_map (w, fixed) (PDict d)
     = (Inr (PDict (dict_set d ''input''
                 (key_val (fst (get_or_create_custom_biosphere_flow env (custom_biosphere_db_name cfg)
                                  raw_name cats_t unit_n w))))),
        (snd (get_or_create_custom_biosphere_flow env (custom_biosphere_db_name cfg)
                raw_name cats_t unit_n w), fixed + 1))"
proof -
  have m: "(case name_map (norm raw_name) of Some m \<Rightarrow> m | None \<Rightarrow> str_of (PStr raw_name)) = mapped_name"
    unfolding assms(7) by (cases "name_map (norm raw_name)") simp_all
  have m2: "(case name_map (norm raw_name) of None \<Rightarrow> raw_name | Some m \<Rightarrow> m) = mapped_name"
    unfolding assms(7) by (cases "name_map (norm raw_name)") simp_all
  have t: "(if cats_tuple env (dict_get d ''categories'') \<noteq> []
            then Some (cats_tuple env (dict_get d ''categories'') ! 0) else None)
           = (if cats_t \<noteq> [] then Some (cats_t ! 0) else None)"
    unfolding assms(5) by simp
  show ?thesis
    unfolding bio_exchange_def Let_def
    using assms(1-4,8-11)
    by (simp only: pyval.case assms(3,4) m m2 t assms(5)[symmetric] assms(6)[symmetric]
          str_of.simps is_str.simps fst_conv snd_conv split_beta option.case
          if_True if_False simp_thms)
qed


text \<open>
  C5, amended. When stages A to C fail for a biosphere exchange and the fallback is
  enabled, the factory is invoked with the exchange's original name (neither normalized nor
  replaced by the override table), the normalized category tuple and the normalized unit;
  the exchange's \<^verbatim>\<open>input\<close> is set to the identifier it returns, which is the custom
  database name with the fingerprint of these three values.
\<close>

theorem synthetic_fallback_arguments:
  assumes "dict_get d ''type'' = PStr ''biosphere''" and "\<not> dict_has d ''input''"
    and "dict_get d ''name'' = PStr raw_name" and "dict_get d ''unit'' = PStr unit"
    and "cats_t = cats_tuple env (dict_get d ''categories'')" and "unit_n = norm unit"
    and "mapped_name = (case name_map (norm raw_name) of Some m \<Rightarrow> m | None \<Rightarrow> raw_name)"
    and "exact_idx (norm raw_name, cats_t, unit_n) = None"
    and "exact_idx (norm mapped_name, cats_t, unit_n) = None"
    and "choose_best_candidate (candidates_for_name name_idx mapped_name) unit_n
           (if cats_t \<noteq> [] then Some (cats_t ! 0) else None) = None"
    and "allow_create_missing_biosphere_flows cfg"
  shows "bio_exchange env cfg exact_idx name_idx name_map (w, fixed) (PDict d)
     = (Inr (PDict (dict_set d ''input''
                 (key_val (fst (get_or_create_custom_biosphere_flow env (custom_biosphere_db_name cfg)
                                  raw_name cats_t unit_n w))))),
        (snd (get_or_create_custom_biosphere_flow env (custom_biosphere_db_name cfg)
                raw_name cats_t unit_n w), fixed + 1))
     \<and> fst (get_or_create_custom_biosphere_flow env (custom_biosphere_db_name cfg)
               raw_name cats_t unit_n w)
       = (custom_biosphere_db_name cfg, custom_flow_code env raw_name cats_t unit_n)"
proof (rule conjI)
  show "bio_exchange env cfg exact_idx name_idx name_map (w, fixed) (PDict d)
     = (Inr (PDict (dict_set d ''input''
                 (key_val (fst (get_or_create_custom_biosphere_flow env (custom_biosphere_db_name cfg)
                                  raw_name cats_t unit_n w))))),
        (snd (get_or_create_custom_biosphere_flow env (custom_biosphere_db_name cfg)
                raw_name cats_t unit_n w), fixed + 1))"
    by (rule bio_exchange_stage_D) (fact assms)+
  show "fst (get_or_create_custom_biosphere_flow env (custom_biosphere_db_name cfg)
               raw_name cats_t unit_n w)
       = (custom_biosphere_db_name cfg, custom_flow_code env raw_name cats_t unit_n)"
    by (rule get_or_create_key)
qed

text \<open>
  The amended C5 on scenario 3 of the specification, with upper-case letters in the
  categories and the unit.
\<close>

theorem synthetic_fallback_arguments_witness:
  "bio_exchange sample_env CFG_create Map.empty Map.empty Map.empty (fresh_project, 0)
     (PDict exc_unknown_pollutant)
   = (Inr (PDict (dict_set exc_unknown_pollutant ''input''
               (key_val (fst (get_or_create_custom_biosphere_flow sample_env
                                (custom_biosphere_db_name CFG_create)
                                ''Unknown Pollutant X'' [''soil''] ''kg'' fresh_project))))),
      (snd (get_or_create_custom_biosphere_flow sample_env (custom_biosphere_db_name CFG_create)
              ''Unknown Pollutant X'' [''soil''] ''kg'' fresh_project), 0 + 1))"
proof -
  have h: "dict_get exc_unknown_pollutant ''type'' = PStr ''biosphere''"
    "\<not> dict_has exc_unknown_pollutant ''input''"
    "dict_get exc_unknown_pollutant ''name'' = PStr ''Unknown Pollutant X''"
    "dict_get exc_unknown_pollutant ''unit'' = PStr ''KG''"
    by (simp_all add: exc_unknown_pollutant_def dict_get_def dict_has_def)
  have c: "[''soil''] = cats_tuple sample_env (dict_get exc_unknown_pollutant ''categories'')"
    by code_simp
  have u: "''kg'' = norm ''KG''"
    by code_simp
  have m: "''Unknown Pollutant X''
           = (case Map.empty (norm ''Unknown Pollutant X'') of Some m \<Rightarrow> m
              | None \<Rightarrow> ''Unknown Pollutant X'')"
    by simp
  have ch: "choose_best_candidate (candidates_for_name Map.empty ''Unknown Pollutant X'') ''kg''
              (if [''soil''] \<noteq> [] then Some ([''soil''] ! 0) else None) = None"
    by code_simp
  have al: "allow_create_missing_biosphere_flows CFG_create"
    by (simp add: CFG_create_def)
  show ?thesis
    by (rule synthetic_fallback_arguments[OF h c u m _ _ ch al, THEN conjunct1]) simp_all
qed

lemma tech_exchange_unknown_db:
  assumes "dict_get d ''type'' = PStr ''technosphere''" and "\<not> dict_has d ''input''"
    and "dict_get d ''database'' = PStr db_name" and "db_name \<notin> dom (dbs w)"
  shows "tech_exchange w st (PDict d) = (PDict d, st)"
  using assms by (simp add: tech_exchange_def Let_def)

lemma tech_exchange_indices:
  "dom (fst (snd (tech_exchange w st exc))) \<subseteq> dom (fst st) \<union> dom (dbs w)"
  by (cases exc) (auto simp: tech_exchange_def Let_def split: option.splits if_splits)

lemma map_accum_inv:
  assumes "\<And>s x. I s \<Longrightarrow> I (snd (f s x))" and "I s"
  shows "I (snd (map_accum f s xs))"
  using assms(2)
proof (induction xs arbitrary: s)
  case Nil
  then show ?case by simp
next
  case (Cons x xs)
  have "I (snd (f s x))" using Cons.prems by (rule assms(1))
  then have "I (snd (map_accum f (snd (f s x)) xs))" by (rule Cons.IH)
  then show ?case by (simp add: split_beta)
qed

lemma map_accum_length: "length (fst (map_accum f s xs)) = length xs"
  by (induction xs arbitrary: s) (simp_all add: split_beta)

lemma map_accum_nth:
  assumes "\<And>s. P (fst (f s (xs ! i)))" and "i < length xs"
  shows "P (fst (map_accum f s xs) ! i)"
  using assms
proof (induction xs arbitrary: s i)
  case Nil
  then show ?case by simp
next
  case (Cons x xs)
  show ?case
  proof (cases i)
    case 0
    then show ?thesis using Cons.prems(1)[of s] by (simp add: split_beta)
  next
    case (Suc k)
    have "P (fst (map_accum f (snd (f s x)) xs) ! k)"
      using Cons.prems Suc by (intro Cons.IH) auto
    then show ?thesis using Suc by (simp add: split_beta)
  qed
qed

lemma tech_activity_indices:
  "dom (fst st) \<subseteq> dom (dbs w) \<Longrightarrow> dom (fst (snd (tech_activity w st act))) \<subseteq> dom (dbs w)"
proof -
  assume a: "dom (fst st) \<subseteq> dom (dbs w)"
  have "dom (fst (snd (map_accum (tech_exchange w) st (exchanges act)))) \<subseteq> dom (dbs w)"
    by (rule map_accum_inv[where I = "\<lambda>s. dom (fst s) \<subseteq> dom (dbs w)"])
       (use tech_exchange_indices a in blast)+
  then show ?thesis by (simp add: tech_activity_def split_beta)
qed

lemma tech_loop_indices: "dom (fst (snd (tech_loop w acts))) \<subseteq> dom (dbs w)"
  unfolding tech_loop_def
  by (rule map_accum_inv[where I = "\<lambda>s. dom (fst s) \<subseteq> dom (dbs w)"])
     (simp_all add: tech_activity_indices)

lemma tech_loop_unchanged:
  assumes "\<And>st. tech_exchange w st e = (e, st)"
    and "i < length acts" and "j < length (exchanges (acts ! i))"
    and "exchanges (acts ! i) ! j = e"
  shows "exchanges (fst (tech_loop w acts) ! i) ! j = e"
  unfolding tech_loop_def
proof (rule map_accum_nth[where P = "\<lambda>a. exchanges a ! j = e", OF _ assms(2)])
  fix s
  have "fst (map_accum (tech_exchange w) s (exchanges (acts ! i))) ! j = e"
    by (rule map_accum_nth[where P = "\<lambda>x. x = e", OF _ assms(3)]) (simp add: assms(1,4))
  then show "exchanges (fst (tech_activity w s (acts ! i))) ! j = e"
    by (simp add: tech_activity_def split_beta)
qed

lemma candidates_for_name_empty: "candidates_for_name Map.empty n = []"
  by (simp add: candidates_for_name_def BIO_NAME_ALIASES_def)

lemma bio_exchange_unresolved:
  assumes "dict_get b ''type'' = PStr ''biosphere''" and "\<not> dict_has b ''input''"
    and "is_str (dict_get b ''name'')" and "is_str (dict_get b ''unit'')"
    and "\<not> allow_create_missing_biosphere_flows cfg"
  shows "\<exists>mapped. bio_exchange env cfg Map.empty Map.empty name_map bst (PDict b)
           = (Inl (UnresolvedBiosphere (dict_get b ''name'') mapped (dict_get b ''categories'')
                     (dict_get b ''unit'')), bst)"
  using assms
  by (simp add: bio_exchange_def Let_def candidates_for_name_empty choose_best_candidate_def)

text \<open>
  C9. A technosphere exchange without \<^verbatim>\<open>input\<close> whose database label is not a
  database of the project is left as it is, together with the cache and the counter; after
  the whole pass no index exists for that database, the payload has the same length, and
  the exchange stands unchanged at its position. The pass has no error result at all. By
  contrast, a biosphere exchange that nothing resolves is fatal when the fallback is
  disabled: it ends in \<open>UnresolvedBiosphere\<close>.
\<close>

theorem unknown_technosphere_database_skipped:
  assumes "dict_get d ''type'' = PStr ''technosphere''" and "\<not> dict_has d ''input''"
    and "dict_get d ''database'' = PStr db_name" and "db_name \<notin> dom (dbs w)"
  shows "tech_exchange w st (PDict d) = (PDict d, st)
     \<and> db_name \<notin> dom (fst (snd (tech_loop w acts)))
     \<and> length (fst (fill_missing_technosphere_inputs w acts)) = length acts
     \<and> (i < length acts \<and> j < length (exchanges (acts ! i)) \<and> exchanges (acts ! i) ! j = PDict d
          \<longrightarrow> exchanges (fst (fill_missing_technosphere_inputs w acts) ! i) ! j = PDict d)
     \<and> (dict_get b ''type'' = PStr ''biosphere'' \<and> \<not> dict_has b ''input''
          \<and> is_str (dict_get b ''name'') \<and> is_str (dict_get b ''unit'')
          \<and> \<not> allow_create_missing_biosphere_flows cfg
          \<longrightarrow> (\<exists>mapped. bio_exchange env cfg Map.empty Map.empty name_map bst (PDict b)
                 = (Inl (UnresolvedBiosphere (dict_get b ''name'') mapped (dict_get b ''categories'')
                           (dict_get b ''unit'')), bst)))"
proof -
  have skip: "tech_exchange w st (PDict d) = (PDict d, st)" for st
    using assms by (rule tech_exchange_unknown_db)
  have fst_fill: "fst (fill_missing_technosphere_inputs w acts) = fst (tech_loop w acts)"
    by (simp add: fill_missing_technosphere_inputs_def split_beta)
  have len: "length (fst (fill_missing_technosphere_inputs w acts)) = length acts"
    unfolding fst_fill tech_loop_def by (rule map_accum_length)
  have same: "i < length acts \<and> j < length (exchanges (acts ! i)) \<and> exchanges (acts ! i) ! j = PDict d
          \<longrightarrow> exchanges (fst (fill_missing_technosphere_inputs w acts) ! i) ! j = PDict d"
    unfolding fst_fill using tech_loop_unchanged[of w "PDict d" i acts j] skip by blast
  have noidx: "db_name \<notin> dom (fst (snd (tech_loop w acts)))"
    using tech_loop_indices[of w acts] assms(4) by blast
  show ?thesis
    using skip len same noidx bio_exchange_unresolved[of b cfg env name_map bst] by blast
qed


text \<open>
  C9 on a dataset with one technosphere exchange that points to \<open>ecoinvent 3.9\<close>, in a
  project without that database.
\<close>

theorem unknown_technosphere_database_skipped_witness:
  "tech_exchange fresh_project (Map.empty, 0) (PDict exc_tech_unknown_db)
     = (PDict exc_tech_unknown_db, (Map.empty, 0))
   \<and> ''ecoinvent 3.9'' \<notin> dom (fst (snd (tech_loop fresh_project [dataset_tech])))
   \<and> exchanges (fst (fill_missing_technosphere_inputs fresh_project [dataset_tech]) ! 0) ! 0
     = PDict exc_tech_unknown_db"
proof -
  have h: "dict_get exc_tech_unknown_db ''type'' = PStr ''technosphere''"
    "\<not> dict_has exc_tech_unknown_db ''input''"
    "dict_get exc_tech_unknown_db ''database'' = PStr ''ecoinvent 3.9''"
    "''ecoinvent 3.9'' \<notin> dom (dbs fresh_project)"
    by (simp_all add: exc_tech_unknown_db_def dict_get_def dict_has_def fresh_project_def)
  note t = unknown_technosphere_database_skipped[OF h, where acts = "[dataset_tech]" and i = 0 and j = 0
      and st = "(Map.empty, 0)"]
  have p: "0 < length [dataset_tech] \<and> 0 < length (exchanges ([dataset_tech] ! 0))
           \<and> exchanges ([dataset_tech] ! 0) ! 0 = PDict exc_tech_unknown_db"
    by (simp add: dataset_tech_def)
  show ?thesis
    using t p by blast
qed

end
